theory Spec2Isabelle
  imports Main "HOL-Library.Word"
begin

unbundle bit_operations_syntax

section \<open>PROFINET RSI dissection (plugins/epan/profinet/packet-pn-rsi.c)\<close>

subsection \<open>Buffers, header fields and the dissection output\<close>

text \<open>A \<open>tvbuff_t\<close> is the captured bytes of one frame; offsets are cursors into it.\<close>

type_synonym tvbuff = "8 word list"

text \<open>The only error a decode can end with: a read or an item past the end of the buffer.\<close>

datatype error = TruncatedInput

text \<open>The header-field handles \<open>hf_pn_rsi_*\<close> declared at the top of the file.\<close>

datatype hf =
    hf_pn_rsi_dst_srv_access_point
  | hf_pn_rsi_src_srv_access_point
  | hf_pn_rsi_pdu_type
  | hf_pn_rsi_pdu_type_type
  | hf_pn_rsi_pdu_type_version
  | hf_pn_rsi_add_flags
  | hf_pn_rsi_add_flags_windowsize
  | hf_pn_rsi_add_flags_reserved1
  | hf_pn_rsi_add_flags_tack
  | hf_pn_rsi_add_flags_morefrag
  | hf_pn_rsi_add_flags_notification
  | hf_pn_rsi_add_flags_reserved2
  | hf_pn_rsi_send_seq_num
  | hf_pn_rsi_ack_seq_num
  | hf_pn_rsi_var_part_len
  | hf_pn_rsi_f_opnum_offset
  | hf_pn_rsi_f_opnum_offset_offset
  | hf_pn_rsi_f_opnum_offset_opnum
  | hf_pn_rsi_f_opnum_offset_callsequence
  | hf_pn_rsi_conn_block
  | hf_pn_rsi_rsp_max_length
  | hf_pn_rsi_vendor_id
  | hf_pn_rsi_device_id
  | hf_pn_rsi_instance_id
  | hf_pn_rsi_interface
  | hf_pn_rsi_svcs_block
  | hf_pn_rsi_security_association_control
  | hf_pn_rsi_number_of_entries
  | hf_pn_rsi_pd_rsi_instance
  | hf_pn_rsi_device_type
  | hf_pn_rsi_order_id
  | hf_pn_rsi_im_serial_number
  | hf_pn_rsi_hw_revision
  | hf_pn_rsi_sw_revision_prefix
  | hf_pn_rsi_sw_revision
  | hf_pn_rsi_security_meta_data
  | hf_pn_rsi_security_information_protection_mode
  | hf_pn_rsi_security_information_reserved
  | hf_pn_rsi_security_control_generation_number
  | hf_pn_rsi_security_control_reserved
  | hf_pn_rsi_security_sequence_counter
  | hf_pn_rsi_security_length_length
  | hf_pn_rsi_security_length_reserved
  | hf_pn_rsi_security_checksum
  | hf_pn_rsi_security_data
  | hf_pn_rsi_data_payload
  | hf_pn_rsi_reassembled_in

text \<open>
  The bitmask column of the \<open>hf_register_info\<close> table in \<open>init_pn_rsi\<close>; every entry
  that is not listed has the mask \<open>0x0\<close>.
\<close>

definition hf_bitmask :: "hf \<Rightarrow> 32 word" where
  "hf_bitmask h =
     (case h of
        hf_pn_rsi_pdu_type_type \<Rightarrow> 0x0F
      | hf_pn_rsi_pdu_type_version \<Rightarrow> 0xF0
      | hf_pn_rsi_add_flags_windowsize \<Rightarrow> 0x07
      | hf_pn_rsi_add_flags_reserved1 \<Rightarrow> 0x08
      | hf_pn_rsi_add_flags_tack \<Rightarrow> 0x10
      | hf_pn_rsi_add_flags_morefrag \<Rightarrow> 0x20
      | hf_pn_rsi_add_flags_notification \<Rightarrow> 0x40
      | hf_pn_rsi_add_flags_reserved2 \<Rightarrow> 0x80
      | hf_pn_rsi_f_opnum_offset_offset \<Rightarrow> 0x00FFFFFF
      | hf_pn_rsi_f_opnum_offset_opnum \<Rightarrow> 0x1F000000
      | hf_pn_rsi_f_opnum_offset_callsequence \<Rightarrow> 0xE0000000
      | hf_pn_rsi_security_information_protection_mode \<Rightarrow> 0x01
      | hf_pn_rsi_security_information_reserved \<Rightarrow> 0xFE
      | hf_pn_rsi_security_control_generation_number \<Rightarrow> 0x0F
      | hf_pn_rsi_security_control_reserved \<Rightarrow> 0xF0
      | hf_pn_rsi_security_length_length \<Rightarrow> 0x07FF
      | hf_pn_rsi_security_length_reserved \<Rightarrow> 0xF800
      | _ \<Rightarrow> 0x0)"

text \<open>
  Modelled from the spec: the display value of a masked header field, which the protocol
  tree of epan/proto.c computes and this file only registers masks for. Section 4.1:
  masked sub-field extraction applies \<open>value & mask\<close> and, where the mask is not
  right-aligned, a compensating shift, without re-reading the buffer.
\<close>

fun hfinfo_bitshift :: "nat \<Rightarrow> 32 word \<Rightarrow> nat" where
  "hfinfo_bitshift 0 m = 0"
| "hfinfo_bitshift (Suc k) m = (if bit m 0 then 0 else Suc (hfinfo_bitshift k (drop_bit 1 m)))"

definition hf_value :: "hf \<Rightarrow> 32 word \<Rightarrow> 32 word" where
  "hf_value h raw =
     (if hf_bitmask h = 0 then raw
      else drop_bit (hfinfo_bitshift 32 (hf_bitmask h)) (raw AND hf_bitmask h))"

text \<open>\<open>PDU_TYPE_REQ\<close> and \<open>PDU_TYPE_RSP\<close> of packet-pn.h.\<close>

datatype pdu_type = PDU_TYPE_REQ | PDU_TYPE_RSP

text \<open>
  What a dissection writes, in the order it is written: items and integer fields of the
  protocol tree, text appended to an item, the Info and Protocol columns, expert
  diagnostics, and the calls handed to decoders outside this file. A dissection returns
  the events it wrote as a list.
\<close>

datatype event =
    Item hf nat nat
  | UInt hf nat nat nat
  | ProtocolItem string nat nat
  | AppendText string "nat list"
  | ColInfo string
  | ColInfoFormat string "nat list"
  | ColProtocol string
  | SetLen nat
  | ExpertInfo string "nat list"
  | Undecoded nat nat
  | Padding nat nat
  | UserData nat nat string
  | PNIOStatus nat
  | Blocks nat
  | ReassembledData "8 word list"
  | RsiBlocks "8 word list" nat "32 word" pdu_type
  | GeneratedUInt hf nat

subsection \<open>Flow identity and the reassembly table\<close>

type_synonym address = "8 word list"

text \<open>The fields of \<open>packet_info\<close> and of its \<open>frame_data\<close> that this file reads.\<close>

record packet_info =
  num :: "32 word"
  visited :: bool
  src :: address
  dst :: address
  srcport :: "32 word"
  destport :: "32 word"
  clnp_srcref :: "16 word"
  clnp_dstref :: "16 word"

type_synonym conversation_key = "address \<times> address \<times> 32 word \<times> 32 word"

record fragment_head =
  reassembled_in :: "32 word"
  tvb_data :: "8 word list"

type_synonym fragment_key = "address \<times> address \<times> nat"

record reassembly_table =
  fragment_table :: "fragment_key \<Rightarrow> (32 word \<times> 8 word list) list option"
  reassembled_table :: "32 word \<times> nat \<Rightarrow> fragment_head option"

text \<open>The tables that outlive one dissection: the conversations and \<open>pn_rsi_reassembly_table\<close>.\<close>

record dissect_state =
  conversations :: "conversation_key list"
  pn_rsi_reassembly_table :: reassembly_table

text \<open>
  A step returns its value or the exception it threw, the tables as it left them, and
  the events it wrote. Sequencing stops at the first exception and keeps what was written
  to the tree and to the tables before it.
\<close>

type_synonym 'a result = "(error + 'a) \<times> dissect_state \<times> event list"

definition and_then :: "'a result \<Rightarrow> ('a \<Rightarrow> dissect_state \<Rightarrow> 'b result) \<Rightarrow> 'b result" where
  "and_then r f =
     (case r of
        (Inl e, s, evs) \<Rightarrow> (Inl e, s, evs)
      | (Inr a, s, evs) \<Rightarrow> (case f a s of (r', s', evs') \<Rightarrow> (r', s', evs @ evs')))"

definition succeed :: "'a \<Rightarrow> dissect_state \<Rightarrow> 'a result" where
  "succeed a s = (Inr a, s, [])"

definition emit :: "event \<Rightarrow> dissect_state \<Rightarrow> unit result" where
  "emit e s = (Inr (), s, [e])"

text \<open>The output calls of epan/column-utils.c, epan/proto.c and epan/expert.c, as events.\<close>

definition col_append_str :: "string \<Rightarrow> dissect_state \<Rightarrow> unit result" where
  "col_append_str txt s = emit (ColInfo txt) s"

definition col_append_format :: "string \<Rightarrow> nat list \<Rightarrow> dissect_state \<Rightarrow> unit result" where
  "col_append_format fmt args s = emit (ColInfoFormat fmt args) s"

definition col_set_str :: "string \<Rightarrow> dissect_state \<Rightarrow> unit result" where
  "col_set_str txt s = emit (ColProtocol txt) s"

definition proto_item_append_text :: "string \<Rightarrow> nat list \<Rightarrow> dissect_state \<Rightarrow> unit result" where
  "proto_item_append_text fmt args s = emit (AppendText fmt args) s"

definition proto_item_set_len :: "nat \<Rightarrow> dissect_state \<Rightarrow> unit result" where
  "proto_item_set_len n s = emit (SetLen n) s"

definition expert_add_info_format :: "string \<Rightarrow> nat list \<Rightarrow> dissect_state \<Rightarrow> unit result" where
  "expert_add_info_format fmt args s = emit (ExpertInfo fmt args) s"

definition proto_tree_add_protocol_format :: "string \<Rightarrow> nat \<Rightarrow> nat \<Rightarrow> dissect_state \<Rightarrow> unit result" where
  "proto_tree_add_protocol_format title start len s = emit (ProtocolItem title start len) s"

definition proto_tree_add_uint :: "hf \<Rightarrow> 32 word \<Rightarrow> dissect_state \<Rightarrow> unit result" where
  "proto_tree_add_uint h v s = emit (GeneratedUInt h (unat v)) s"

text \<open>
  Modelled from the spec: the conversation collaborator (epan/conversation.c), of which the
  file needs a stable per-flow key with get-or-create semantics (sections 1 and 6). A
  conversation is the position of its key in the list of conversations created so far.
\<close>

fun find_index_of :: "'a \<Rightarrow> 'a list \<Rightarrow> nat option" where
  "find_index_of k [] = None"
| "find_index_of k (x # xs) =
     (if x = k then Some 0 else map_option Suc (find_index_of k xs))"

definition find_conversation :: "conversation_key \<Rightarrow> dissect_state \<Rightarrow> nat option" where
  "find_conversation k s = find_index_of k (conversations s)"

definition conversation_new :: "conversation_key \<Rightarrow> dissect_state \<Rightarrow> nat \<times> dissect_state" where
  "conversation_new k s = (length (conversations s), s\<lparr>conversations := conversations s @ [k]\<rparr>)"

text \<open>
  Modelled from the spec: the reassembly table (epan/reassemble.c). Section 3: a fragment
  group is an ordered sequence of byte ranges contributed by arrivals of one flow,
  appended in arrival order, neither reordered nor deduplicated; it is created by the first
  fragment, completed by the arrival that carries MoreFrag = false, and then yields one
  reassembled buffer. Section 4.5: the completing arrival is the group's identity
  (\<open>reassembled_in\<close>) and every arrival of the group can find the completed group.
\<close>

definition fragment_get ::
  "reassembly_table \<Rightarrow> packet_info \<Rightarrow> nat \<Rightarrow> (32 word \<times> 8 word list) list option" where
  "fragment_get t pinfo ident = fragment_table t (src pinfo, dst pinfo, ident)"

definition fragment_get_reassembled_id ::
  "reassembly_table \<Rightarrow> packet_info \<Rightarrow> nat \<Rightarrow> fragment_head option" where
  "fragment_get_reassembled_id t pinfo ident = reassembled_table t (num pinfo, ident)"

definition fragment_add_seq_next ::
  "reassembly_table \<Rightarrow> tvbuff \<Rightarrow> nat \<Rightarrow> packet_info \<Rightarrow> nat \<Rightarrow> nat \<Rightarrow> 8 word \<Rightarrow> reassembly_table" where
  "fragment_add_seq_next t tvb offset pinfo ident frag_data_len more_frags =
     (let key = (src pinfo, dst pinfo, ident);
          old = (case fragment_table t key of None \<Rightarrow> [] | Some fs \<Rightarrow> fs);
          frags = old @ [(num pinfo, take frag_data_len (drop offset tvb))]
      in if more_frags \<noteq> 0
         then t\<lparr>fragment_table := (fragment_table t)(key := Some frags)\<rparr>
         else t\<lparr>fragment_table := (fragment_table t)(key := None),
                reassembled_table :=
                  (\<lambda>(frame, i).
                     if i = ident \<and> List.member (map fst frags) frame
                     then Some \<lparr>reassembled_in = num pinfo, tvb_data = concat (map snd frags)\<rparr>
                     else reassembled_table t (frame, i))\<rparr>)"

definition process_reassembled_data :: "fragment_head \<Rightarrow> dissect_state \<Rightarrow> tvbuff result" where
  "process_reassembled_data fd_head s = (Inr (tvb_data fd_head), s, [ReassembledData (tvb_data fd_head)])"

subsection \<open>The bitfield codec\<close>

definition tvb_captured_length :: "tvbuff \<Rightarrow> nat" where
  "tvb_captured_length tvb = length tvb"

definition tvb_captured_length_remaining :: "tvbuff \<Rightarrow> nat \<Rightarrow> nat" where
  "tvb_captured_length_remaining tvb offset = length tvb - offset"

definition tvb_get_ntohs :: "tvbuff \<Rightarrow> nat \<Rightarrow> 16 word" where
  "tvb_get_ntohs tvb offset = push_bit 8 (ucast (tvb ! offset)) OR ucast (tvb ! (offset + 1))"

definition tvb_get_ntohl :: "tvbuff \<Rightarrow> nat \<Rightarrow> 32 word" where
  "tvb_get_ntohl tvb offset =
     push_bit 24 (ucast (tvb ! offset)) OR push_bit 16 (ucast (tvb ! (offset + 1)))
       OR push_bit 8 (ucast (tvb ! (offset + 2))) OR ucast (tvb ! (offset + 3))"

text \<open>
  Modelled from the spec: the integer readers of epan/dissectors/packet-dcerpc.c and the
  item constructor of epan/proto.c. Section 4.1: \<open>read_uint\<close> reads \<open>width\<close> bytes
  big-endian, hands back the whole value read (sub-fields are masked by the caller or by
  the field's registered mask) and the offset advanced by \<open>width\<close>, and fails with
  TruncatedInput when fewer than \<open>width\<close> bytes remain. Section 7: an item whose declared
  width exceeds the bytes that remain fails the same way.
\<close>

definition dissect_dcerpc_uint8 :: "tvbuff \<Rightarrow> nat \<Rightarrow> hf \<Rightarrow> dissect_state \<Rightarrow> (nat \<times> 8 word) result" where
  "dissect_dcerpc_uint8 tvb offset h s =
     (if offset + 1 \<le> length tvb
      then (Inr (offset + 1, tvb ! offset), s, [UInt h offset 1 (unat (tvb ! offset))])
      else (Inl TruncatedInput, s, []))"

definition dissect_dcerpc_uint16 :: "tvbuff \<Rightarrow> nat \<Rightarrow> hf \<Rightarrow> dissect_state \<Rightarrow> (nat \<times> 16 word) result" where
  "dissect_dcerpc_uint16 tvb offset h s =
     (if offset + 2 \<le> length tvb
      then (Inr (offset + 2, tvb_get_ntohs tvb offset), s,
            [UInt h offset 2 (unat (tvb_get_ntohs tvb offset))])
      else (Inl TruncatedInput, s, []))"

definition dissect_dcerpc_uint32 :: "tvbuff \<Rightarrow> nat \<Rightarrow> hf \<Rightarrow> dissect_state \<Rightarrow> (nat \<times> 32 word) result" where
  "dissect_dcerpc_uint32 tvb offset h s =
     (if offset + 4 \<le> length tvb
      then (Inr (offset + 4, tvb_get_ntohl tvb offset), s,
            [UInt h offset 4 (unat (tvb_get_ntohl tvb offset))])
      else (Inl TruncatedInput, s, []))"

definition proto_tree_add_item :: "hf \<Rightarrow> tvbuff \<Rightarrow> nat \<Rightarrow> nat \<Rightarrow> dissect_state \<Rightarrow> unit result" where
  "proto_tree_add_item h tvb start len s =
     (if len = 0 \<or> start + len \<le> length tvb
      then (Inr (), s, [Item h start len])
      else (Inl TruncatedInput, s, []))"

text \<open>
  Modelled from the spec: the helpers of packet-pn.c for bytes that get no structure.
  Each marks \<open>length\<close> bytes from \<open>offset\<close> (undecoded data, padding, user data) and
  advances the cursor by \<open>length\<close>; sections 3 and 4.3 call them the undecoded marker and
  the mandatory skip.
\<close>

definition dissect_pn_undecoded :: "tvbuff \<Rightarrow> nat \<Rightarrow> nat \<Rightarrow> dissect_state \<Rightarrow> nat result" where
  "dissect_pn_undecoded tvb offset len s = (Inr (offset + len), s, [Undecoded offset len])"

definition dissect_pn_padding :: "tvbuff \<Rightarrow> nat \<Rightarrow> nat \<Rightarrow> dissect_state \<Rightarrow> nat result" where
  "dissect_pn_padding tvb offset len s = (Inr (offset + len), s, [Padding offset len])"

definition dissect_pn_user_data :: "tvbuff \<Rightarrow> nat \<Rightarrow> nat \<Rightarrow> string \<Rightarrow> dissect_state \<Rightarrow> nat result" where
  "dissect_pn_user_data tvb offset len txt s = (Inr (offset + len), s, [UserData offset len txt])"

text \<open>
  The decoders of other files that this one calls: the PNIOStatus record, the generic
  block list, and the block list of a reassembled RSI payload. Each is given the buffer
  and the cursor and returns the cursor it reached or fails; what they decode is not
  this file's concern, so they are parameters.
\<close>

record collaborators =
  pnio_status :: "tvbuff \<Rightarrow> nat \<Rightarrow> error + nat"
  blocks :: "tvbuff \<Rightarrow> nat \<Rightarrow> error + nat"
  rsi_blocks :: "tvbuff \<Rightarrow> nat \<Rightarrow> 32 word \<Rightarrow> pdu_type \<Rightarrow> error + nat"

definition dissect_PNIO_status :: "collaborators \<Rightarrow> tvbuff \<Rightarrow> nat \<Rightarrow> dissect_state \<Rightarrow> nat result" where
  "dissect_PNIO_status c tvb offset s = (pnio_status c tvb offset, s, [PNIOStatus offset])"

definition dissect_blocks :: "collaborators \<Rightarrow> tvbuff \<Rightarrow> nat \<Rightarrow> dissect_state \<Rightarrow> nat result" where
  "dissect_blocks c tvb offset s = (blocks c tvb offset, s, [Blocks offset])"

definition dissect_rsi_blocks ::
  "collaborators \<Rightarrow> tvbuff \<Rightarrow> nat \<Rightarrow> 32 word \<Rightarrow> pdu_type \<Rightarrow> dissect_state \<Rightarrow> nat result" where
  "dissect_rsi_blocks c tvb offset opnum type s =
     (rsi_blocks c tvb offset opnum type, s, [RsiBlocks tvb offset opnum type])"

subsection \<open>FOpnumOffset\<close>

definition dissect_FOpnumOffset :: "tvbuff \<Rightarrow> nat \<Rightarrow> dissect_state \<Rightarrow> (nat \<times> 32 word) result" where
  "dissect_FOpnumOffset tvb offset s =
     and_then (proto_tree_add_item hf_pn_rsi_f_opnum_offset tvb offset 4 s) (\<lambda>_ s.
     and_then (dissect_dcerpc_uint32 tvb offset hf_pn_rsi_f_opnum_offset_offset s) (\<lambda>(_, u32FOpnumOffset) s.
     and_then (dissect_dcerpc_uint32 tvb offset hf_pn_rsi_f_opnum_offset_opnum s) (\<lambda>(_, u32FOpnumOffset) s.
     and_then (dissect_dcerpc_uint32 tvb offset hf_pn_rsi_f_opnum_offset_callsequence s) (\<lambda>(offset, u32FOpnumOffset) s.
       succeed (offset, u32FOpnumOffset) s))))"

text \<open>
  The two statements that follow the read in \<open>dissect_FREQ_RTA_block\<close> and in
  \<open>dissect_FRSP_RTA_block\<close>:
  \<open>u32FOpnumOffsetOpnum = (u32FOpnumOffset & 0x1F000000) >> 24\<close> and
  \<open>u32FOpnumOffsetOffset = u32FOpnumOffset & 0x00FFFFFF\<close>.
\<close>

definition FOpnumOffset_Opnum :: "32 word \<Rightarrow> 32 word" where
  "FOpnumOffset_Opnum u32FOpnumOffset = drop_bit 24 (u32FOpnumOffset AND 0x1F000000)"

definition FOpnumOffset_Offset :: "32 word \<Rightarrow> 32 word" where
  "FOpnumOffset_Offset u32FOpnumOffset = u32FOpnumOffset AND 0x00FFFFFF"

subsection \<open>The reassembly engine\<close>

text \<open>
  The head of \<open>dissect_pn_rta_remaining_user_data_bytes\<close>: the conversation is looked up
  by the port pair when both ports are non-zero and by the reference pair otherwise,
  and created when it is not found, so \<open>conv\<close> is never NULL where the source tests it.
\<close>

definition flow_conversation :: "packet_info \<Rightarrow> dissect_state \<Rightarrow> nat \<times> dissect_state" where
  "flow_conversation pinfo s =
     (let key = (if srcport pinfo \<noteq> 0 \<and> destport pinfo \<noteq> 0
                 then (src pinfo, dst pinfo, srcport pinfo, destport pinfo)
                 else (src pinfo, dst pinfo, ucast (clnp_srcref pinfo), ucast (clnp_dstref pinfo)))
      in case find_conversation key s of
           Some i \<Rightarrow> (i, s)
         | None \<Rightarrow> conversation_new key s)"

definition dissect_pn_rta_remaining_user_data_bytes ::
  "collaborators \<Rightarrow> tvbuff \<Rightarrow> nat \<Rightarrow> packet_info \<Rightarrow> nat \<Rightarrow> 8 word \<Rightarrow> 32 word \<Rightarrow> pdu_type
     \<Rightarrow> dissect_state \<Rightarrow> nat result" where
  "dissect_pn_rta_remaining_user_data_bytes c tvb offset pinfo len u8MoreFrag u32FOpnumOffsetOpnum type s0 =
     (let (conv, s) = flow_conversation pinfo s0;
          fd_frag = fragment_get (pn_rsi_reassembly_table s) pinfo conv;
          fd_reass = fragment_get_reassembled_id (pn_rsi_reassembly_table s) pinfo conv
      in if u8MoreFrag = 0 \<and> fd_frag = None \<and> fd_reass = None
         then dissect_blocks c tvb offset s
         else
           (let s = (if \<not> visited pinfo
                     then s\<lparr>pn_rsi_reassembly_table :=
                              fragment_add_seq_next (pn_rsi_reassembly_table s) tvb offset pinfo conv
                                len u8MoreFrag\<rparr>
                     else s);
                fd_reass = (if \<not> visited pinfo
                            then fragment_get_reassembled_id (pn_rsi_reassembly_table s) pinfo conv
                            else fd_reass)
            in and_then (col_append_str (if u8MoreFrag \<noteq> 0 then '' [PN IO RSI Segment]''
                                         else '' [Last PN IO RSI Segment]'') s) (\<lambda>_ s.
               case fd_reass of
                 None \<Rightarrow> succeed offset s
               | Some h \<Rightarrow>
                   if num pinfo = reassembled_in h
                   then and_then (process_reassembled_data h s) (\<lambda>next_tvb s.
                        and_then (proto_tree_add_item hf_pn_rsi_data_payload next_tvb 0
                                    (tvb_captured_length next_tvb) s) (\<lambda>_ s.
                        dissect_rsi_blocks c next_tvb 0 u32FOpnumOffsetOpnum type s))
                   else and_then (proto_tree_add_uint hf_pn_rsi_reassembled_in (reassembled_in h) s)
                          (\<lambda>_ s. succeed offset s))))"

subsection \<open>Block decoders\<close>

definition dissect_RSI_SVCS_block ::
  "collaborators \<Rightarrow> tvbuff \<Rightarrow> nat \<Rightarrow> packet_info \<Rightarrow> 16 word \<Rightarrow> 8 word \<Rightarrow> 32 word \<Rightarrow> 32 word
     \<Rightarrow> dissect_state \<Rightarrow> nat result" where
  "dissect_RSI_SVCS_block c tvb offset pinfo u16VarPartLen u8MoreFrag u32FOpnumOffsetOffset u32FOpnumOffsetOpnum s =
     (let u32RsiHeaderSize = (4 :: 32 word);
          length32 = u32FOpnumOffsetOffset + ucast u16VarPartLen - 4 - u32RsiHeaderSize
      in and_then (proto_tree_add_item hf_pn_rsi_svcs_block tvb offset 0 s) (\<lambda>_ s.
         and_then (if u32FOpnumOffsetOffset = 0
                   then and_then (dissect_dcerpc_uint32 tvb offset hf_pn_rsi_rsp_max_length s)
                          (\<lambda>(offset, u32RspMaxLength) s. succeed offset s)
                   else if u8MoreFrag = 0
                   then and_then (proto_item_append_text
                                    '', RSI Header of SVCS is at first segment'' [] s)
                          (\<lambda>_ s. succeed offset s)
                   else succeed offset s) (\<lambda>offset s.
         if 0 < sint length32
         then dissect_pn_rta_remaining_user_data_bytes c tvb offset pinfo
                (tvb_captured_length_remaining tvb offset) u8MoreFrag u32FOpnumOffsetOpnum PDU_TYPE_REQ s
         else succeed offset s)))"

definition dissect_RSI_CONN_block ::
  "collaborators \<Rightarrow> tvbuff \<Rightarrow> nat \<Rightarrow> packet_info \<Rightarrow> 16 word \<Rightarrow> 8 word \<Rightarrow> 32 word \<Rightarrow> 32 word
     \<Rightarrow> dissect_state \<Rightarrow> nat result" where
  "dissect_RSI_CONN_block c tvb offset pinfo u16VarPartLen u8MoreFrag u32FOpnumOffsetOffset u32FOpnumOffsetOpnum s =
     (let u32RsiHeaderSize = (4 :: 32 word);
          length32 = u32FOpnumOffsetOffset + ucast u16VarPartLen - 4 - u32RsiHeaderSize
      in and_then (proto_tree_add_item hf_pn_rsi_conn_block tvb offset 0 s) (\<lambda>_ s.
         and_then (if u32FOpnumOffsetOffset = 0
                   then and_then (dissect_dcerpc_uint32 tvb offset hf_pn_rsi_rsp_max_length s)
                          (\<lambda>(offset, u32RspMaxLength) s.
                        and_then (dissect_dcerpc_uint16 tvb offset hf_pn_rsi_vendor_id s)
                          (\<lambda>(offset, u16VendorId) s.
                        and_then (dissect_dcerpc_uint16 tvb offset hf_pn_rsi_device_id s)
                          (\<lambda>(offset, u16DeviceId) s.
                        and_then (dissect_dcerpc_uint16 tvb offset hf_pn_rsi_instance_id s)
                          (\<lambda>(offset, u16InstanceId) s.
                        and_then (dissect_dcerpc_uint8 tvb offset hf_pn_rsi_interface s)
                          (\<lambda>(offset, u8RsiInterface) s.
                        dissect_pn_padding tvb offset 1 s)))))
                   else if u8MoreFrag = 0
                   then and_then (proto_item_append_text
                                    '', RSI Header of CONN is at first segment'' [] s)
                          (\<lambda>_ s. succeed offset s)
                   else succeed offset s) (\<lambda>offset s.
         if 0 < sint length32
         then dissect_pn_rta_remaining_user_data_bytes c tvb offset pinfo
                (tvb_captured_length_remaining tvb offset) u8MoreFrag u32FOpnumOffsetOpnum PDU_TYPE_REQ s
         else succeed offset s)))"

definition dissect_SecurityAssociationContol_block ::
  "collaborators \<Rightarrow> tvbuff \<Rightarrow> nat \<Rightarrow> packet_info \<Rightarrow> 16 word \<Rightarrow> 8 word \<Rightarrow> 32 word \<Rightarrow> 32 word
     \<Rightarrow> 16 word \<Rightarrow> dissect_state \<Rightarrow> nat result" where
  "dissect_SecurityAssociationContol_block c tvb offset pinfo u16VarPartLen u8MoreFrag u32FOpnumOffsetOffset u32FOpnumOffsetOpnum u16DestinationServiceAccessPoint s =
     (let u32RsiHeaderSize = (4 :: 32 word);
          length32 = u32FOpnumOffsetOffset + ucast u16VarPartLen - 4 - u32RsiHeaderSize
      in and_then (proto_tree_add_item hf_pn_rsi_security_association_control tvb offset 0 s) (\<lambda>_ s.
         and_then (if u32FOpnumOffsetOffset = 0
                   then and_then (dissect_dcerpc_uint32 tvb offset hf_pn_rsi_rsp_max_length s)
                          (\<lambda>(offset, u32RspMaxLength) s.
                        if u16DestinationServiceAccessPoint = 0xFFFF
                        then and_then (dissect_dcerpc_uint16 tvb offset hf_pn_rsi_vendor_id s)
                          (\<lambda>(offset, u16VendorId) s.
                        and_then (dissect_dcerpc_uint16 tvb offset hf_pn_rsi_device_id s)
                          (\<lambda>(offset, u16DeviceId) s.
                        and_then (dissect_dcerpc_uint16 tvb offset hf_pn_rsi_instance_id s)
                          (\<lambda>(offset, u16InstanceId) s.
                        and_then (dissect_dcerpc_uint8 tvb offset hf_pn_rsi_interface s)
                          (\<lambda>(offset, u8RsiInterface) s.
                        dissect_pn_padding tvb offset 1 s))))
                        else succeed offset s)
                   else if u8MoreFrag = 0
                   then and_then (proto_item_append_text
                                    '', RSI Header of SecurityAssociationControl is at first segment'' [] s)
                          (\<lambda>_ s. succeed offset s)
                   else succeed offset s) (\<lambda>offset s.
         if 0 < sint length32
         then dissect_pn_rta_remaining_user_data_bytes c tvb offset pinfo
                (tvb_captured_length_remaining tvb offset) u8MoreFrag u32FOpnumOffsetOpnum PDU_TYPE_REQ s
         else succeed offset s)))"

definition dissect_RSI_RSP_block ::
  "collaborators \<Rightarrow> tvbuff \<Rightarrow> nat \<Rightarrow> packet_info \<Rightarrow> 16 word \<Rightarrow> 8 word \<Rightarrow> 32 word \<Rightarrow> 32 word
     \<Rightarrow> dissect_state \<Rightarrow> nat result" where
  "dissect_RSI_RSP_block c tvb offset pinfo u16VarPartLen u8MoreFrag u32FOpnumOffsetOffset u32FOpnumOffsetOpnum s =
     (let u32RsiHeaderSize = (4 :: 32 word);
          length32 = u32FOpnumOffsetOffset + ucast u16VarPartLen - 4 - u32RsiHeaderSize
      in and_then (if u32FOpnumOffsetOffset = 0
                   then dissect_PNIO_status c tvb offset s
                   else if u8MoreFrag = 0
                   then and_then (proto_item_append_text
                                    '', RSI Header of RSP is at first fragmented frame'' [] s)
                          (\<lambda>_ s. succeed offset s)
                   else succeed offset s) (\<lambda>offset s.
         if 0 < sint length32
         then dissect_pn_rta_remaining_user_data_bytes c tvb offset pinfo
                (tvb_captured_length_remaining tvb offset) u8MoreFrag u32FOpnumOffsetOpnum PDU_TYPE_RSP s
         else succeed offset s))"

subsection \<open>The opcode dispatchers\<close>

text \<open>The \<open>switch (u32FOpnumOffsetOpnum)\<close> of \<open>dissect_FREQ_RTA_block\<close>.\<close>

definition FREQ_RTA_switch ::
  "collaborators \<Rightarrow> tvbuff \<Rightarrow> nat \<Rightarrow> packet_info \<Rightarrow> 16 word \<Rightarrow> 8 word \<Rightarrow> 16 word
     \<Rightarrow> 32 word \<Rightarrow> 32 word \<Rightarrow> dissect_state \<Rightarrow> nat result" where
  "FREQ_RTA_switch c tvb offset pinfo u16VarPartLen u8MoreFrag u16DestinationServiceAccessPoint
       u32FOpnumOffsetOffset u32FOpnumOffsetOpnum s =
     (if u32FOpnumOffsetOpnum = 0x0 then
            and_then (col_append_str ''Connect request'' s) (\<lambda>_ s.
              if u16DestinationServiceAccessPoint = 0xFFFF
              then dissect_RSI_CONN_block c tvb offset pinfo u16VarPartLen u8MoreFrag u32FOpnumOffsetOffset u32FOpnumOffsetOpnum s
              else dissect_RSI_SVCS_block c tvb offset pinfo u16VarPartLen u8MoreFrag u32FOpnumOffsetOffset u32FOpnumOffsetOpnum s)
          else if u32FOpnumOffsetOpnum = 0x1 then
            and_then (col_append_str ''Reserved'' s) (\<lambda>_ s.
              dissect_pn_undecoded tvb offset (tvb_captured_length tvb) s)
          else if u32FOpnumOffsetOpnum = 0x2 then
            and_then (col_append_str ''Read request'' s) (\<lambda>_ s.
              dissect_RSI_SVCS_block c tvb offset pinfo u16VarPartLen u8MoreFrag u32FOpnumOffsetOffset u32FOpnumOffsetOpnum s)
          else if u32FOpnumOffsetOpnum = 0x3 then
            and_then (col_append_str ''Write request'' s) (\<lambda>_ s.
              dissect_RSI_SVCS_block c tvb offset pinfo u16VarPartLen u8MoreFrag u32FOpnumOffsetOffset u32FOpnumOffsetOpnum s)
          else if u32FOpnumOffsetOpnum = 0x4 then
            and_then (col_append_str ''Control request'' s) (\<lambda>_ s.
              dissect_RSI_SVCS_block c tvb offset pinfo u16VarPartLen u8MoreFrag u32FOpnumOffsetOffset u32FOpnumOffsetOpnum s)
          else if u32FOpnumOffsetOpnum = 0x5 then
            and_then (col_append_str ''ReadImplicit request'' s) (\<lambda>_ s.
              dissect_RSI_CONN_block c tvb offset pinfo u16VarPartLen u8MoreFrag u32FOpnumOffsetOffset u32FOpnumOffsetOpnum s)
          else if u32FOpnumOffsetOpnum = 0x6 then
            and_then (col_append_str ''ReadConnectionless request'' s) (\<lambda>_ s.
              dissect_RSI_CONN_block c tvb offset pinfo u16VarPartLen u8MoreFrag u32FOpnumOffsetOffset u32FOpnumOffsetOpnum s)
          else if u32FOpnumOffsetOpnum = 0x7 then
            and_then (col_append_str ''ReadNotification request'' s) (\<lambda>_ s.
              dissect_RSI_SVCS_block c tvb offset pinfo u16VarPartLen u8MoreFrag u32FOpnumOffsetOffset u32FOpnumOffsetOpnum s)
          else if u32FOpnumOffsetOpnum = 0x8 then
            and_then (col_append_str ''PrmWriteMore request'' s) (\<lambda>_ s.
              dissect_RSI_SVCS_block c tvb offset pinfo u16VarPartLen u8MoreFrag u32FOpnumOffsetOffset u32FOpnumOffsetOpnum s)
          else if u32FOpnumOffsetOpnum = 0x9 then
            and_then (col_append_str ''PrmWriteEnd request'' s) (\<lambda>_ s.
              dissect_RSI_SVCS_block c tvb offset pinfo u16VarPartLen u8MoreFrag u32FOpnumOffsetOffset u32FOpnumOffsetOpnum s)
          else if u32FOpnumOffsetOpnum = 0xA then
            and_then (col_append_str ''SecurityAssociationControl'' s) (\<lambda>_ s.
              dissect_SecurityAssociationContol_block c tvb offset pinfo u16VarPartLen u8MoreFrag u32FOpnumOffsetOffset u32FOpnumOffsetOpnum u16DestinationServiceAccessPoint s)
          else
            and_then (col_append_str ''Reserved'' s) (\<lambda>_ s.
              dissect_pn_undecoded tvb offset (tvb_captured_length tvb) s))"

definition dissect_FREQ_RTA_block ::
  "collaborators \<Rightarrow> tvbuff \<Rightarrow> nat \<Rightarrow> packet_info \<Rightarrow> 16 word \<Rightarrow> 8 word \<Rightarrow> 16 word
     \<Rightarrow> dissect_state \<Rightarrow> nat result" where
  "dissect_FREQ_RTA_block c tvb offset pinfo u16VarPartLen u8MoreFrag u16DestinationServiceAccessPoint s =
     and_then (dissect_FOpnumOffset tvb offset s) (\<lambda>(offset, u32FOpnumOffset) s.
       let opnum = FOpnumOffset_Opnum u32FOpnumOffset;
           off = FOpnumOffset_Offset u32FOpnumOffset
       in FREQ_RTA_switch c tvb offset pinfo u16VarPartLen u8MoreFrag u16DestinationServiceAccessPoint
            off opnum s)"

text \<open>The labels of the \<open>switch\<close> in \<open>dissect_FRSP_RTA_block\<close>, whose cases do nothing else.\<close>

definition FRSP_RTA_info :: "32 word \<Rightarrow> string" where
  "FRSP_RTA_info opnum =
     (if opnum = 0x0 then ''Connect response''
      else if opnum = 0x1 then ''Reserved''
      else if opnum = 0x2 then ''Read response''
      else if opnum = 0x3 then ''Write response''
      else if opnum = 0x4 then ''Control response''
      else if opnum = 0x5 then ''ReadImplicit response''
      else if opnum = 0x6 then ''ReadConnectionless response''
      else if opnum = 0x7 then ''ReadNotification response''
      else if opnum = 0x8 then ''PrmWriteMore response''
      else if opnum = 0x9 then ''PrmWriteEnd response''
      else if opnum = 0xA then ''SecurityAssociationControl response''
      else ''Reserved'')"

definition dissect_FRSP_RTA_block ::
  "collaborators \<Rightarrow> tvbuff \<Rightarrow> nat \<Rightarrow> packet_info \<Rightarrow> 16 word \<Rightarrow> 8 word \<Rightarrow> dissect_state \<Rightarrow> nat result" where
  "dissect_FRSP_RTA_block c tvb offset pinfo u16VarPartLen u8MoreFrag s =
     and_then (dissect_FOpnumOffset tvb offset s) (\<lambda>(offset, u32FOpnumOffset) s.
       let opnum = FOpnumOffset_Opnum u32FOpnumOffset;
           off = FOpnumOffset_Offset u32FOpnumOffset
       in and_then (col_append_str (FRSP_RTA_info opnum) s) (\<lambda>_ s.
          dissect_RSI_RSP_block c tvb offset pinfo u16VarPartLen u8MoreFrag off opnum s))"

subsection \<open>The RSI header\<close>

definition dissect_RSIAdditionalFlags :: "tvbuff \<Rightarrow> nat \<Rightarrow> dissect_state \<Rightarrow> (nat \<times> 8 word) result" where
  "dissect_RSIAdditionalFlags tvb offset s =
     and_then (proto_tree_add_item hf_pn_rsi_add_flags tvb offset 1 s) (\<lambda>_ s.
     and_then (dissect_dcerpc_uint8 tvb offset hf_pn_rsi_add_flags_windowsize s) (\<lambda>(_, u8AddFlags) s.
     and_then (dissect_dcerpc_uint8 tvb offset hf_pn_rsi_add_flags_reserved1 s) (\<lambda>(_, u8AddFlags) s.
     and_then (dissect_dcerpc_uint8 tvb offset hf_pn_rsi_add_flags_tack s) (\<lambda>(_, u8AddFlags) s.
     and_then (dissect_dcerpc_uint8 tvb offset hf_pn_rsi_add_flags_morefrag s) (\<lambda>(_, u8AddFlags) s.
     and_then (dissect_dcerpc_uint8 tvb offset hf_pn_rsi_add_flags_notification s) (\<lambda>(_, u8AddFlags) s.
     and_then (dissect_dcerpc_uint8 tvb offset hf_pn_rsi_add_flags_reserved2 s) (\<lambda>(offset, u8AddFlags) s.
       let u8WindowSize = u8AddFlags AND 0x03;
           u8Tack = u8AddFlags AND 0x10;
           u8Tack = (if u8Tack = 0x10 then 1 else 0 :: 8 word)
       in and_then (proto_item_append_text '', Window Size: %u, Tack: %u  ''
                      [unat u8WindowSize, unat u8Tack] s) (\<lambda>_ s.
          succeed (offset, u8AddFlags) s))))))))"

definition dissect_PNIO_RSI ::
  "collaborators \<Rightarrow> tvbuff \<Rightarrow> nat \<Rightarrow> packet_info \<Rightarrow> dissect_state \<Rightarrow> nat result" where
  "dissect_PNIO_RSI c tvb offset pinfo s =
     (let start_offset = offset
      in and_then (proto_tree_add_protocol_format ''PROFINET IO RSI'' offset (tvb_captured_length tvb) s)
           (\<lambda>_ s.
         and_then (dissect_dcerpc_uint16 tvb offset hf_pn_rsi_dst_srv_access_point s)
           (\<lambda>(offset, u16DestinationServiceAccessPoint) s.
         and_then (dissect_dcerpc_uint16 tvb offset hf_pn_rsi_src_srv_access_point s)
           (\<lambda>(offset, u16SourceServiceAccessPoint) s.
         and_then (proto_tree_add_item hf_pn_rsi_pdu_type tvb offset 1 s) (\<lambda>_ s.
         and_then (dissect_dcerpc_uint8 tvb offset hf_pn_rsi_pdu_type_type s) (\<lambda>(_, u8PDUType) s.
         and_then (dissect_dcerpc_uint8 tvb offset hf_pn_rsi_pdu_type_version s) (\<lambda>(offset, u8PDUVersion) s.
         and_then (dissect_RSIAdditionalFlags tvb offset s) (\<lambda>(offset, u8AddFlags) s.
         and_then (dissect_dcerpc_uint16 tvb offset hf_pn_rsi_send_seq_num s) (\<lambda>(offset, u16SendSeqNum) s.
         and_then (dissect_dcerpc_uint16 tvb offset hf_pn_rsi_ack_seq_num s) (\<lambda>(offset, u16AckSeqNum) s.
         and_then (dissect_dcerpc_uint16 tvb offset hf_pn_rsi_var_part_len s) (\<lambda>(offset, u16VarPartLen) s.
         let u8PDUType = u8PDUType AND 0x0F;
             u8MoreFrag = drop_bit 5 u8AddFlags AND 0x1
         in and_then
              (if u8PDUType AND 0x0F = 3 then
                 and_then (col_append_str ''ACK-RTA'' s) (\<lambda>_ s.
                 if u8AddFlags AND 0x40 \<noteq> 0
                 then and_then (col_append_str '', Application Ready Notification'' s)
                        (\<lambda>_ s. succeed offset s)
                 else succeed offset s)
               else if u8PDUType AND 0x0F = 4 then
                 and_then (col_append_str ''ERR-RTA'' s) (\<lambda>_ s.
                 dissect_PNIO_status c tvb offset s)
               else if u8PDUType AND 0x0F = 5 then
                 dissect_FREQ_RTA_block c tvb offset pinfo u16VarPartLen u8MoreFrag
                   u16DestinationServiceAccessPoint s
               else if u8PDUType AND 0x0F = 6 then
                 dissect_FRSP_RTA_block c tvb offset pinfo u16VarPartLen u8MoreFrag s
               else dissect_pn_undecoded tvb offset (tvb_captured_length tvb) s)
              (\<lambda>offset s.
                 and_then (proto_item_set_len (offset - start_offset) s) (\<lambda>_ s.
                 and_then (col_set_str ''PNIO-RSI'' s) (\<lambda>_ s.
                 succeed offset s))))))))))))))"

subsection \<open>The security envelope\<close>

definition dissect_PNIO_RSI_with_security ::
  "collaborators \<Rightarrow> tvbuff \<Rightarrow> nat \<Rightarrow> packet_info \<Rightarrow> dissect_state \<Rightarrow> nat result" where
  "dissect_PNIO_RSI_with_security c tvb offset pinfo s =
     (let u8LengthSecurityChecksum = (16 :: 8 word);
          start_offset = offset
      in and_then (proto_tree_add_protocol_format ''PROFINET IO RSI with Security'' offset
                     (tvb_captured_length tvb) s) (\<lambda>_ s.
         and_then (proto_tree_add_item hf_pn_rsi_security_meta_data tvb offset 8 s) (\<lambda>_ s.
         and_then (dissect_dcerpc_uint8 tvb offset hf_pn_rsi_security_information_protection_mode s)
           (\<lambda>(_, u8ProtectionMode) s.
         and_then (dissect_dcerpc_uint8 tvb offset hf_pn_rsi_security_information_reserved s)
           (\<lambda>(offset, u8InformationReserved) s.
         and_then (dissect_dcerpc_uint8 tvb offset hf_pn_rsi_security_control_generation_number s)
           (\<lambda>(_, u8NextContextID) s.
         and_then (dissect_dcerpc_uint8 tvb offset hf_pn_rsi_security_control_reserved s)
           (\<lambda>(offset, u8CurrentContextID) s.
         and_then (dissect_dcerpc_uint32 tvb offset hf_pn_rsi_security_sequence_counter s)
           (\<lambda>(offset, u32SecuritySequenceCounter) s.
         and_then (dissect_dcerpc_uint16 tvb offset hf_pn_rsi_security_length_length s)
           (\<lambda>(_, u16SecurityLength) s.
         and_then (dissect_dcerpc_uint16 tvb offset hf_pn_rsi_security_length_reserved s)
           (\<lambda>(offset, u16LengthReserved) s.
         and_then (dissect_dcerpc_uint16 tvb offset hf_pn_rsi_dst_srv_access_point s)
           (\<lambda>(offset, u16DestinationServiceAccessPoint) s.
         and_then (dissect_dcerpc_uint16 tvb offset hf_pn_rsi_src_srv_access_point s)
           (\<lambda>(offset, u16SourceServiceAccessPoint) s.
         let u8ProtectionMode = u8ProtectionMode AND 0x0F
         in and_then
              (if u8ProtectionMode = 0x00 then
                 and_then (proto_tree_add_item hf_pn_rsi_pdu_type tvb offset 1 s) (\<lambda>_ s.
                 and_then (dissect_dcerpc_uint8 tvb offset hf_pn_rsi_pdu_type_type s) (\<lambda>(_, u8PDUType) s.
                 and_then (dissect_dcerpc_uint8 tvb offset hf_pn_rsi_pdu_type_version s)
                   (\<lambda>(offset, u8PDUVersion) s.
                 and_then (dissect_RSIAdditionalFlags tvb offset s) (\<lambda>(offset, u8AddFlags) s.
                 and_then (dissect_dcerpc_uint16 tvb offset hf_pn_rsi_send_seq_num s)
                   (\<lambda>(offset, u16SendSeqNum) s.
                 and_then (dissect_dcerpc_uint16 tvb offset hf_pn_rsi_ack_seq_num s)
                   (\<lambda>(offset, u16AckSeqNum) s.
                 and_then (dissect_dcerpc_uint16 tvb offset hf_pn_rsi_var_part_len s)
                   (\<lambda>(offset, u16VarPartLen) s.
                 let u8PDUType = u8PDUType AND 0x0F;
                     u8MoreFrag = drop_bit 5 u8AddFlags AND 0x1
                 in and_then
                      (if u8PDUType AND 0x0F = 3 then
                         and_then (col_append_str ''ACK-RTA'' s) (\<lambda>_ s.
                         if u8AddFlags AND 0x40 \<noteq> 0
                         then and_then (col_append_str '', Application Ready Notification'' s)
                                (\<lambda>_ s. succeed offset s)
                         else succeed offset s)
                       else if u8PDUType AND 0x0F = 4 then
                         and_then (col_append_str ''ERR-RTA'' s) (\<lambda>_ s.
                         and_then (dissect_PNIO_status c tvb offset s) (\<lambda>offset s.
                         if 0 < tvb_captured_length_remaining tvb offset
                         then and_then (dissect_dcerpc_uint16 tvb offset hf_pn_rsi_vendor_id s)
                                (\<lambda>(offset, u16VendorId) s.
                              and_then (dissect_dcerpc_uint16 tvb offset hf_pn_rsi_device_id s)
                                (\<lambda>(offset, u16DeviceId) s.
                              dissect_pn_user_data tvb offset
                                (unat ((of_nat (tvb_captured_length tvb) :: 32 word) - of_nat offset - 16))
                                ''Data'' s))
                         else succeed offset s))
                       else if u8PDUType AND 0x0F = 5 then
                         dissect_FREQ_RTA_block c tvb offset pinfo u16VarPartLen u8MoreFrag
                           u16DestinationServiceAccessPoint s
                       else if u8PDUType AND 0x0F = 6 then
                         dissect_FRSP_RTA_block c tvb offset pinfo u16VarPartLen u8MoreFrag s
                       else dissect_pn_undecoded tvb offset (tvb_captured_length tvb) s)
                      (\<lambda>offset s.
                         and_then (proto_tree_add_item hf_pn_rsi_security_checksum tvb offset
                                     (unat u8LengthSecurityChecksum) s) (\<lambda>_ s.
                         succeed (offset + unat u8LengthSecurityChecksum) s)))))))))
               else if u8ProtectionMode = 0x01 then
                 (let u16LengthSecurityData =
                        (of_nat (tvb_captured_length_remaining tvb offset) :: 16 word)
                  in and_then (proto_tree_add_item hf_pn_rsi_security_data tvb offset
                                 (unat u16LengthSecurityData) s) (\<lambda>_ s.
                     and_then (col_append_format
                        ''RSI encrypted, DestinationServiceAccessPoint: %u, SourceServiceAccessPoint: %u, Len: %4u''
                        [unat u16DestinationServiceAccessPoint, unat u16SourceServiceAccessPoint,
                         unat u16LengthSecurityData] s) (\<lambda>_ s.
                     succeed (offset + unat u16LengthSecurityData) s)))
               else succeed offset s)
              (\<lambda>offset s.
                 and_then (proto_item_set_len (offset - start_offset) s) (\<lambda>_ s.
                 and_then (col_set_str ''PNIO-RSIsec'' s) (\<lambda>_ s.
                 succeed offset s)))))))))))))))"

subsection \<open>PDRsiInstances\<close>

text \<open>The body of the \<open>while (u16NumberOfEntries > 0)\<close> loop, run once per remaining entry.\<close>

fun PDRsiInstances_entries :: "tvbuff \<Rightarrow> nat \<Rightarrow> nat \<Rightarrow> dissect_state \<Rightarrow> nat result" where
  "PDRsiInstances_entries tvb offset 0 s = succeed offset s"
| "PDRsiInstances_entries tvb offset (Suc n) s =
     and_then (proto_tree_add_item hf_pn_rsi_pd_rsi_instance tvb offset 0 s) (\<lambda>_ s.
     and_then (dissect_dcerpc_uint16 tvb offset hf_pn_rsi_vendor_id s) (\<lambda>(offset, u16VendorId) s.
     and_then (dissect_dcerpc_uint16 tvb offset hf_pn_rsi_device_id s) (\<lambda>(offset, u16DeviceId) s.
     and_then (dissect_dcerpc_uint16 tvb offset hf_pn_rsi_instance_id s) (\<lambda>(offset, u16InstanceId) s.
     and_then (dissect_dcerpc_uint8 tvb offset hf_pn_rsi_interface s) (\<lambda>(offset, u8RsiInterface) s.
     and_then (proto_item_append_text '': VendorID:%u, DeviceID:%u, InstanceID:%u, RsiInterface:%u''
                 [unat u16VendorId, unat u16DeviceId, unat u16InstanceId, unat u8RsiInterface] s) (\<lambda>_ s.
     and_then (dissect_pn_padding tvb offset 1 s) (\<lambda>offset s.
     PDRsiInstances_entries tvb offset n s)))))))"

definition dissect_PDRsiInstances_block ::
  "tvbuff \<Rightarrow> nat \<Rightarrow> 8 word \<Rightarrow> 8 word \<Rightarrow> dissect_state \<Rightarrow> nat result" where
  "dissect_PDRsiInstances_block tvb offset u8BlockVersionHigh u8BlockVersionLow s =
     (let deviceType_size = 25;
          orderID_size = 20;
          IMserialnumber_size = 16;
          HWrevision_size = 5;
          SWrevisionprefix_size = 1;
          SWrevision_size = 9
      in if u8BlockVersionHigh \<noteq> 1 \<or> u8BlockVersionLow \<noteq> 0
         then and_then (expert_add_info_format ''Block version %u.%u not implemented yet!''
                          [unat u8BlockVersionHigh, unat u8BlockVersionLow] s) (\<lambda>_ s.
              succeed offset s)
         else
           and_then (dissect_dcerpc_uint16 tvb offset hf_pn_rsi_number_of_entries s)
             (\<lambda>(offset, u16NumberOfEntries) s.
           and_then (proto_item_append_text '': NumberOfEntries:%u'' [unat u16NumberOfEntries] s) (\<lambda>_ s.
           and_then (PDRsiInstances_entries tvb offset (unat u16NumberOfEntries) s) (\<lambda>offset s.
           and_then (proto_tree_add_item hf_pn_rsi_device_type tvb offset deviceType_size s) (\<lambda>_ s.
           let offset = offset + deviceType_size + 1 in
           and_then (proto_tree_add_item hf_pn_rsi_order_id tvb offset orderID_size s) (\<lambda>_ s.
           let offset = offset + orderID_size + 1 in
           and_then (proto_tree_add_item hf_pn_rsi_im_serial_number tvb offset IMserialnumber_size s) (\<lambda>_ s.
           let offset = offset + IMserialnumber_size + 1 in
           and_then (proto_tree_add_item hf_pn_rsi_hw_revision tvb offset HWrevision_size s) (\<lambda>_ s.
           let offset = offset + HWrevision_size + 1 in
           and_then (proto_tree_add_item hf_pn_rsi_sw_revision_prefix tvb offset SWrevisionprefix_size s) (\<lambda>_ s.
           let offset = offset + SWrevisionprefix_size in
           and_then (proto_tree_add_item hf_pn_rsi_sw_revision tvb offset SWrevision_size s) (\<lambda>_ s.
           let offset = offset + SWrevision_size in
           succeed offset s))))))))))"

subsection \<open>Definitions used to state the properties\<close>

text \<open>
  The layout section 3 gives one PDRsiInstances record that starts at \<open>offset\<close>: VendorID,
  DeviceID and InstanceID of 16 bits each, the 8-bit interface and one byte of padding,
  8 bytes in all, under one \<open>PDRsiInstance\<close> item.
\<close>

definition PDRsiInstance_record :: "tvbuff \<Rightarrow> nat \<Rightarrow> event list" where
  "PDRsiInstance_record tvb offset =
     [Item hf_pn_rsi_pd_rsi_instance offset 0,
      UInt hf_pn_rsi_vendor_id offset 2 (unat (tvb_get_ntohs tvb offset)),
      UInt hf_pn_rsi_device_id (offset + 2) 2 (unat (tvb_get_ntohs tvb (offset + 2))),
      UInt hf_pn_rsi_instance_id (offset + 4) 2 (unat (tvb_get_ntohs tvb (offset + 4))),
      UInt hf_pn_rsi_interface (offset + 6) 1 (unat (tvb ! (offset + 6))),
      AppendText '': VendorID:%u, DeviceID:%u, InstanceID:%u, RsiInterface:%u''
        [unat (tvb_get_ntohs tvb offset), unat (tvb_get_ntohs tvb (offset + 2)),
         unat (tvb_get_ntohs tvb (offset + 4)), unat (tvb ! (offset + 6))],
      Padding (offset + 7) 1]"

text \<open>Sample inputs: empty tables, collaborators that accept any buffer, and a frame.\<close>

definition no_tables :: dissect_state where
  "no_tables =
     \<lparr>conversations = [],
      pn_rsi_reassembly_table = \<lparr>fragment_table = (\<lambda>_. None), reassembled_table = (\<lambda>_. None)\<rparr>\<rparr>"

definition sample_collaborators :: collaborators where
  "sample_collaborators =
     \<lparr>pnio_status = (\<lambda>tvb offset. if offset + 4 \<le> length tvb then Inr (offset + 4) else Inl TruncatedInput),
      blocks = (\<lambda>tvb offset. Inr (length tvb)),
      rsi_blocks = (\<lambda>tvb offset opnum type. Inr (length tvb))\<rparr>"

definition sample_frame :: "32 word \<Rightarrow> bool \<Rightarrow> packet_info" where
  "sample_frame n v =
     \<lparr>num = n, visited = v, src = [0x0A, 0, 0, 1], dst = [0x0A, 0, 0, 2],
      srcport = 0, destport = 0, clnp_srcref = 1, clnp_dstref = 2\<rparr>"

text \<open>A dissection step that leaves \<open>pn_rsi_reassembly_table\<close> as it found it.\<close>

definition keeps_reassembly_table :: "(dissect_state \<Rightarrow> 'a result) \<Rightarrow> bool" where
  "keeps_reassembly_table f =
     (\<forall>s. pn_rsi_reassembly_table (fst (snd (f s))) = pn_rsi_reassembly_table s)"

text \<open>
  A call of two fragments on one flow: frame 1 carries the bytes 1 2 3 with MoreFrag set,
  frame 2 carries 4 5 with MoreFrag clear. The tables after the first pass over frame 1,
  and after the first pass over both.
\<close>

definition first_fragment_state :: dissect_state where
  "first_fragment_state =
     fst (snd (dissect_pn_rta_remaining_user_data_bytes sample_collaborators [1, 2, 3] 0
                 (sample_frame 1 False) 3 1 2 PDU_TYPE_REQ no_tables))"

definition last_fragment_state :: dissect_state where
  "last_fragment_state =
     fst (snd (dissect_pn_rta_remaining_user_data_bytes sample_collaborators [4, 5] 0
                 (sample_frame 2 False) 2 0 2 PDU_TYPE_REQ first_fragment_state))"

text \<open>The Info-column label of each case of the \<open>switch\<close> in \<open>dissect_FREQ_RTA_block\<close>.\<close>

definition FREQ_RTA_info :: "32 word \<Rightarrow> string" where
  "FREQ_RTA_info opnum =
     (if opnum = 0x0 then ''Connect request''
      else if opnum = 0x1 then ''Reserved''
      else if opnum = 0x2 then ''Read request''
      else if opnum = 0x3 then ''Write request''
      else if opnum = 0x4 then ''Control request''
      else if opnum = 0x5 then ''ReadImplicit request''
      else if opnum = 0x6 then ''ReadConnectionless request''
      else if opnum = 0x7 then ''ReadNotification request''
      else if opnum = 0x8 then ''PrmWriteMore request''
      else if opnum = 0x9 then ''PrmWriteEnd request''
      else if opnum = 0xA then ''SecurityAssociationControl''
      else ''Reserved'')"










section \<open>Properties\<close>

subsection \<open>Evaluation rules\<close>

lemma and_then_Inr: "and_then (Inr a, s, evs) f = (case f a s of (r', s', evs') \<Rightarrow> (r', s', evs @ evs'))"
  by (simp add: and_then_def)


lemmas output_defs = emit_def succeed_def col_append_str_def col_append_format_def col_set_str_def
  proto_item_append_text_def proto_item_set_len_def expert_add_info_format_def
  proto_tree_add_protocol_format_def proto_tree_add_uint_def

lemmas codec_defs = dissect_dcerpc_uint8_def dissect_dcerpc_uint16_def dissect_dcerpc_uint32_def
  proto_tree_add_item_def tvb_captured_length_def tvb_captured_length_remaining_def
  dissect_pn_undecoded_def dissect_pn_padding_def dissect_pn_user_data_def

lemmas block_defs = dissect_PNIO_status_def dissect_blocks_def dissect_rsi_blocks_def
  process_reassembled_data_def

lemma Opnum_eq: "FOpnumOffset_Opnum v = drop_bit 24 v AND 0x1F"
  unfolding FOpnumOffset_Opnum_def by (rule bit_word_eqI) (auto simp add: bit_simps)

lemma hfinfo_bitshift_opnum: "hfinfo_bitshift 32 (0x1F000000 :: 32 word) = 24"
  by code_simp

lemma hfinfo_bitshift_callsequence: "hfinfo_bitshift 32 (0xE0000000 :: 32 word) = 29"
  by code_simp

lemma hfinfo_bitshift_offset: "hfinfo_bitshift 32 (0x00FFFFFF :: 32 word) = 0"
  by code_simp

lemma hfinfo_bitshift_windowsize: "hfinfo_bitshift 32 (0x07 :: 32 word) = 0"
  by code_simp

lemma dissect_FOpnumOffset_ok:
  "offset + 4 \<le> length tvb \<Longrightarrow>
   dissect_FOpnumOffset tvb offset s =
     (Inr (offset + 4, tvb_get_ntohl tvb offset), s,
      [Item hf_pn_rsi_f_opnum_offset offset 4,
       UInt hf_pn_rsi_f_opnum_offset_offset offset 4 (unat (tvb_get_ntohl tvb offset)),
       UInt hf_pn_rsi_f_opnum_offset_opnum offset 4 (unat (tvb_get_ntohl tvb offset)),
       UInt hf_pn_rsi_f_opnum_offset_callsequence offset 4 (unat (tvb_get_ntohl tvb offset))])"
  by (simp add: dissect_FOpnumOffset_def and_then_Inr codec_defs output_defs)

lemma FOpnumOffset_bitfields:
  "FOpnumOffset_Offset v = v AND 0x00FFFFFF
   \<and> FOpnumOffset_Opnum v = drop_bit 24 v AND 0x1F
   \<and> hf_value hf_pn_rsi_f_opnum_offset_offset v = v AND 0x00FFFFFF
   \<and> hf_value hf_pn_rsi_f_opnum_offset_opnum v = drop_bit 24 v AND 0x1F
   \<and> hf_value hf_pn_rsi_f_opnum_offset_callsequence v = drop_bit 29 v AND 0x7"
  by (simp add: FOpnumOffset_Offset_def Opnum_eq hf_value_def hf_bitmask_def
      hfinfo_bitshift_opnum hfinfo_bitshift_callsequence hfinfo_bitshift_offset)

lemma FOpnumOffset_masks:
  "hf_bitmask hf_pn_rsi_f_opnum_offset_offset OR hf_bitmask hf_pn_rsi_f_opnum_offset_opnum
     OR hf_bitmask hf_pn_rsi_f_opnum_offset_callsequence = 0xFFFFFFFF
   \<and> hf_bitmask hf_pn_rsi_f_opnum_offset_offset AND hf_bitmask hf_pn_rsi_f_opnum_offset_opnum = 0
   \<and> hf_bitmask hf_pn_rsi_f_opnum_offset_offset AND hf_bitmask hf_pn_rsi_f_opnum_offset_callsequence = 0
   \<and> hf_bitmask hf_pn_rsi_f_opnum_offset_opnum AND hf_bitmask hf_pn_rsi_f_opnum_offset_callsequence = 0"
  by (simp add: hf_bitmask_def)

lemma dissect_FREQ_RTA_block_ok:
  "offset + 4 \<le> length tvb \<Longrightarrow>
   dissect_FREQ_RTA_block c tvb offset pinfo u16VarPartLen u8MoreFrag dsap s =
     and_then (dissect_FOpnumOffset tvb offset s) (\<lambda>_ s.
       FREQ_RTA_switch c tvb (offset + 4) pinfo u16VarPartLen u8MoreFrag dsap
         (tvb_get_ntohl tvb offset AND 0x00FFFFFF) (drop_bit 24 (tvb_get_ntohl tvb offset) AND 0x1F) s)"
  by (simp add: dissect_FREQ_RTA_block_def dissect_FOpnumOffset_ok and_then_Inr Opnum_eq
      FOpnumOffset_Offset_def Let_def)

lemma dissect_FRSP_RTA_block_ok:
  "offset + 4 \<le> length tvb \<Longrightarrow>
   dissect_FRSP_RTA_block c tvb offset pinfo u16VarPartLen u8MoreFrag s =
     and_then (dissect_FOpnumOffset tvb offset s) (\<lambda>_ s.
     and_then (col_append_str (FRSP_RTA_info (drop_bit 24 (tvb_get_ntohl tvb offset) AND 0x1F)) s) (\<lambda>_ s.
       dissect_RSI_RSP_block c tvb (offset + 4) pinfo u16VarPartLen u8MoreFrag
         (tvb_get_ntohl tvb offset AND 0x00FFFFFF) (drop_bit 24 (tvb_get_ntohl tvb offset) AND 0x1F) s))"
  by (simp add: dissect_FRSP_RTA_block_def dissect_FOpnumOffset_ok and_then_Inr Opnum_eq
      FOpnumOffset_Offset_def Let_def)

subsection \<open>C1: the three sub-fields of FOpnumOffset\<close>

text \<open>
  C1. For every 32-bit FOpnumOffset value v read from a FREQ or FRSP PDU (the four bytes
  at the cursor, big-endian), the three sub-field entries of the tree are written from
  that one word at that one offset, the FREQ and the FRSP dispatcher continue with
  Offset = v AND 0x00FFFFFF and Opcode = (v >> 24) AND 0x1F, the registered masks display
  Offset, Opcode and CallSequence = (v >> 29) AND 0x7, and the three masks 0x00FFFFFF,
  0x1F000000 and 0xE0000000 cover all 32 bits and are pairwise disjoint.
\<close>

theorem C1_FOpnumOffset_subfields:
  assumes "offset + 4 \<le> length tvb"
  shows "(let v = tvb_get_ntohl tvb offset in
     dissect_FOpnumOffset tvb offset s =
       (Inr (offset + 4, v), s,
        [Item hf_pn_rsi_f_opnum_offset offset 4,
         UInt hf_pn_rsi_f_opnum_offset_offset offset 4 (unat v),
         UInt hf_pn_rsi_f_opnum_offset_opnum offset 4 (unat v),
         UInt hf_pn_rsi_f_opnum_offset_callsequence offset 4 (unat v)])
     \<and> dissect_FREQ_RTA_block c tvb offset pinfo u16VarPartLen u8MoreFrag dsap s =
         and_then (dissect_FOpnumOffset tvb offset s) (\<lambda>_ s.
           FREQ_RTA_switch c tvb (offset + 4) pinfo u16VarPartLen u8MoreFrag dsap
             (v AND 0x00FFFFFF) (drop_bit 24 v AND 0x1F) s)
     \<and> dissect_FRSP_RTA_block c tvb offset pinfo u16VarPartLen u8MoreFrag s =
         and_then (dissect_FOpnumOffset tvb offset s) (\<lambda>_ s.
         and_then (col_append_str (FRSP_RTA_info (drop_bit 24 v AND 0x1F)) s) (\<lambda>_ s.
           dissect_RSI_RSP_block c tvb (offset + 4) pinfo u16VarPartLen u8MoreFrag
             (v AND 0x00FFFFFF) (drop_bit 24 v AND 0x1F) s))
     \<and> hf_value hf_pn_rsi_f_opnum_offset_offset v = v AND 0x00FFFFFF
     \<and> hf_value hf_pn_rsi_f_opnum_offset_opnum v = drop_bit 24 v AND 0x1F
     \<and> hf_value hf_pn_rsi_f_opnum_offset_callsequence v = drop_bit 29 v AND 0x7)
   \<and> (0x00FFFFFF :: 32 word) OR 0x1F000000 OR 0xE0000000 = 0xFFFFFFFF
   \<and> (0x00FFFFFF :: 32 word) AND 0x1F000000 = 0
   \<and> (0x00FFFFFF :: 32 word) AND 0xE0000000 = 0
   \<and> (0x1F000000 :: 32 word) AND 0xE0000000 = 0
   \<and> hf_bitmask hf_pn_rsi_f_opnum_offset_offset = 0x00FFFFFF
   \<and> hf_bitmask hf_pn_rsi_f_opnum_offset_opnum = 0x1F000000
   \<and> hf_bitmask hf_pn_rsi_f_opnum_offset_callsequence = 0xE0000000"
proof -
  have masks: "hf_bitmask hf_pn_rsi_f_opnum_offset_offset = 0x00FFFFFF"
    "hf_bitmask hf_pn_rsi_f_opnum_offset_opnum = 0x1F000000"
    "hf_bitmask hf_pn_rsi_f_opnum_offset_callsequence = 0xE0000000"
    by (simp_all add: hf_bitmask_def)
  have disjoint: "(0x00FFFFFF :: 32 word) OR 0x1F000000 OR 0xE0000000 = 0xFFFFFFFF"
    "(0x00FFFFFF :: 32 word) AND 0x1F000000 = 0"
    "(0x00FFFFFF :: 32 word) AND 0xE0000000 = 0"
    "(0x1F000000 :: 32 word) AND 0xE0000000 = 0"
    by simp_all
  show ?thesis
    unfolding Let_def
    using dissect_FOpnumOffset_ok [OF assms] dissect_FREQ_RTA_block_ok [OF assms]
      dissect_FRSP_RTA_block_ok [OF assms] FOpnumOffset_bitfields masks disjoint
    by (intro conjI) blast+
qed

theorem C1_FOpnumOffset_subfields_witness:
  "(0::nat) + 4 \<le> length [0xAA, 0x12, 0x34, 0x56 :: 8 word]
   \<and> dissect_FOpnumOffset [0xAA, 0x12, 0x34, 0x56] 0 no_tables =
       (Inr (4, 0xAA123456), no_tables,
        [Item hf_pn_rsi_f_opnum_offset 0 4,
         UInt hf_pn_rsi_f_opnum_offset_offset 0 4 2853319766,
         UInt hf_pn_rsi_f_opnum_offset_opnum 0 4 2853319766,
         UInt hf_pn_rsi_f_opnum_offset_callsequence 0 4 2853319766])
   \<and> hf_value hf_pn_rsi_f_opnum_offset_offset 0xAA123456 = 0x123456
   \<and> hf_value hf_pn_rsi_f_opnum_offset_opnum 0xAA123456 = 0x0A
   \<and> hf_value hf_pn_rsi_f_opnum_offset_callsequence 0xAA123456 = 5"
proof -
  have h: "(0::nat) + 4 \<le> length [0xAA, 0x12, 0x34, 0x56 :: 8 word]" by simp
  have v: "tvb_get_ntohl [0xAA, 0x12, 0x34, 0x56] 0 = 0xAA123456"
    by (simp add: tvb_get_ntohl_def)
  show ?thesis
    using h C1_FOpnumOffset_subfields [OF h, of no_tables sample_collaborators "sample_frame 1 False" 0 0 0]
    by (simp add: Let_def v)
qed


subsection \<open>C7: the AdditionalFlags byte\<close>

text \<open>
  The registered masks of the six AdditionalFlags entries rebuild the byte, and MoreFrag
  and TACK are bits 5 and 4 of it.
\<close>

lemma AdditionalFlags_roundtrip:
  fixes v :: "8 word"
  shows "(v AND 0x07) OR (v AND 0x08) OR (v AND 0x10) OR (v AND 0x20) OR (v AND 0x40) OR (v AND 0x80) = v"
  by (rule bit_word_eqI; auto simp add: bit_simps numeral_eq_Suc less_Suc_eq_0_disj bit_0 bit_Suc
      simp flip: and.assoc)

lemma and_exp_bit: "bit v k \<Longrightarrow> (v::8 word) AND 2 ^ k = 2 ^ k"
  by (rule bit_word_eqI) (auto simp: bit_and_iff bit_exp_iff)

lemma and_16_eq: "((v::8 word) AND 0x10 = 0x10) = bit v 4"
proof -
  have e: "(0x10 :: 8 word) = 2 ^ 4" by simp
  have z: "(2 :: 8 word) ^ 4 \<noteq> 0" by simp
  show ?thesis
    unfolding e using and_exp_bit [of v 4] and_exp_eq_0_iff_not_bit [of v 4] z by metis
qed

lemma AdditionalFlags_tack:
  fixes v :: "8 word"
  shows "(if v AND 0x10 = 0x10 then 1 else 0) = drop_bit 4 v AND 1"
  unfolding and_16_eq and_one_eq
  by (simp add: bit_iff_odd_drop_bit mod_2_eq_odd)

text \<open>
  C7. The claim has WindowSize = v AND 0x07, as the comment \<open>Bit 0 - 2\<close>, the registered
  mask 0x07 and the eight entries of the value table have it. The summary text of
  \<open>dissect_RSIAdditionalFlags\<close> is computed with \<open>& 0x03\<close>: for the byte 0x07 the
  WindowSize entry of the tree shows 7 and the text appended to the item says 3.
\<close>

theorem C7_window_size_text:
  "dissect_RSIAdditionalFlags [0x07] 0 s =
     (Inr (1, 0x07), s,
      [Item hf_pn_rsi_add_flags 0 1,
       UInt hf_pn_rsi_add_flags_windowsize 0 1 7,
       UInt hf_pn_rsi_add_flags_reserved1 0 1 7,
       UInt hf_pn_rsi_add_flags_tack 0 1 7,
       UInt hf_pn_rsi_add_flags_morefrag 0 1 7,
       UInt hf_pn_rsi_add_flags_notification 0 1 7,
       UInt hf_pn_rsi_add_flags_reserved2 0 1 7,
       AppendText '', Window Size: %u, Tack: %u  '' [3, 0]])
   \<and> hf_value hf_pn_rsi_add_flags_windowsize 0x07 = 7
   \<and> (0x07 :: 8 word) AND 0x07 = 7"
  by (simp add: dissect_RSIAdditionalFlags_def and_then_Inr codec_defs output_defs hf_value_def
      hf_bitmask_def hfinfo_bitshift_windowsize)


subsection \<open>C9: a protection mode that is neither 0 nor 1\<close>

text \<open>
  C9. For every security-wrapped input that holds the 12 bytes of the SecurityMetaData
  prefix and of the access-point pair and whose Information byte has a low nibble other
  than 0 and 1, \<open>dissect_PNIO_RSI_with_security\<close> runs neither branch: it writes the
  entries of those 12 bytes, no diagnostic, and returns the offset advanced by 12.
\<close>

theorem C9_unhandled_protection_mode:
  assumes "offset + 12 \<le> length tvb"
    and "tvb ! offset AND 0x0F \<noteq> 0" and "tvb ! offset AND 0x0F \<noteq> 1"
  shows "dissect_PNIO_RSI_with_security c tvb offset pinfo s =
     (Inr (offset + 12), s,
      [ProtocolItem ''PROFINET IO RSI with Security'' offset (length tvb),
       Item hf_pn_rsi_security_meta_data offset 8,
       UInt hf_pn_rsi_security_information_protection_mode offset 1 (unat (tvb ! offset)),
       UInt hf_pn_rsi_security_information_reserved offset 1 (unat (tvb ! offset)),
       UInt hf_pn_rsi_security_control_generation_number (offset + 1) 1 (unat (tvb ! (offset + 1))),
       UInt hf_pn_rsi_security_control_reserved (offset + 1) 1 (unat (tvb ! (offset + 1))),
       UInt hf_pn_rsi_security_sequence_counter (offset + 2) 4 (unat (tvb_get_ntohl tvb (offset + 2))),
       UInt hf_pn_rsi_security_length_length (offset + 6) 2 (unat (tvb_get_ntohs tvb (offset + 6))),
       UInt hf_pn_rsi_security_length_reserved (offset + 6) 2 (unat (tvb_get_ntohs tvb (offset + 6))),
       UInt hf_pn_rsi_dst_srv_access_point (offset + 8) 2 (unat (tvb_get_ntohs tvb (offset + 8))),
       UInt hf_pn_rsi_src_srv_access_point (offset + 10) 2 (unat (tvb_get_ntohs tvb (offset + 10))),
       SetLen 12,
       ColProtocol ''PNIO-RSIsec''])"
  using assms
  by (simp add: dissect_PNIO_RSI_with_security_def and_then_Inr codec_defs output_defs add.assoc
      del: add_2_eq_Suc' add_2_eq_Suc One_nat_def)

theorem C9_unhandled_protection_mode_witness:
  "(0::nat) + 12 \<le> length [0x02, 0x12, 0, 0, 0, 1, 0, 8, 0xFF, 0xFF, 0, 1 :: 8 word]
   \<and> [0x02, 0x12, 0, 0, 0, 1, 0, 8, 0xFF, 0xFF, 0, 1 :: 8 word] ! 0 AND 0x0F \<noteq> 0
   \<and> [0x02, 0x12, 0, 0, 0, 1, 0, 8, 0xFF, 0xFF, 0, 1 :: 8 word] ! 0 AND 0x0F \<noteq> 1
   \<and> dissect_PNIO_RSI_with_security sample_collaborators
         [0x02, 0x12, 0, 0, 0, 1, 0, 8, 0xFF, 0xFF, 0, 1] 0 (sample_frame 1 False) no_tables =
       (Inr 12, no_tables,
        [ProtocolItem ''PROFINET IO RSI with Security'' 0 12,
         Item hf_pn_rsi_security_meta_data 0 8,
         UInt hf_pn_rsi_security_information_protection_mode 0 1 2,
         UInt hf_pn_rsi_security_information_reserved 0 1 2,
         UInt hf_pn_rsi_security_control_generation_number 1 1 18,
         UInt hf_pn_rsi_security_control_reserved 1 1 18,
         UInt hf_pn_rsi_security_sequence_counter 2 4 1,
         UInt hf_pn_rsi_security_length_length 6 2 8,
         UInt hf_pn_rsi_security_length_reserved 6 2 8,
         UInt hf_pn_rsi_dst_srv_access_point 8 2 65535,
         UInt hf_pn_rsi_src_srv_access_point 10 2 1,
         SetLen 12,
         ColProtocol ''PNIO-RSIsec''])"
proof -
  let ?tvb = "[0x02, 0x12, 0, 0, 0, 1, 0, 8, 0xFF, 0xFF, 0, 1 :: 8 word]"
  have h1: "(0::nat) + 12 \<le> length ?tvb" by simp
  have h2: "?tvb ! 0 AND 0x0F \<noteq> 0" by simp
  have h3: "?tvb ! 0 AND 0x0F \<noteq> 1" by simp
  show ?thesis
    using h1 h2 h3
      C9_unhandled_protection_mode [OF h1 h2 h3, of sample_collaborators "sample_frame 1 False" no_tables]
    by (simp add: tvb_get_ntohl_def tvb_get_ntohs_def)
qed

subsection \<open>C8: the PDRsiInstances block\<close>

lemma PDRsiInstances_entries_step:
  "offset + 8 \<le> length tvb \<Longrightarrow>
   PDRsiInstances_entries tvb offset (Suc n) s =
     (case PDRsiInstances_entries tvb (offset + 8) n s of
        (r, s', evs) \<Rightarrow> (r, s', PDRsiInstance_record tvb offset @ evs))"
  by (simp add: and_then_Inr codec_defs output_defs PDRsiInstance_record_def add.assoc
      del: add_2_eq_Suc' add_2_eq_Suc One_nat_def split: prod.splits)

lemma PDRsiInstance_records_step:
  "map (\<lambda>i. PDRsiInstance_record tvb (offset + 8 * i)) [0..<Suc n] =
     PDRsiInstance_record tvb offset # map (\<lambda>i. PDRsiInstance_record tvb (offset + 8 + 8 * i)) [0..<n]"
proof -
  have "[0..<Suc n] = 0 # map Suc [0..<n]"
    by (simp add: upt_conv_Cons map_Suc_upt del: upt_Suc)
  then show ?thesis
    by (simp add: add.assoc del: upt_Suc)
qed

lemma PDRsiInstances_entries_ok:
  "offset + 8 * n \<le> length tvb \<Longrightarrow>
   PDRsiInstances_entries tvb offset n s =
     (Inr (offset + 8 * n), s, concat (map (\<lambda>i. PDRsiInstance_record tvb (offset + 8 * i)) [0..<n]))"
proof (induction n arbitrary: offset)
  case 0
  then show ?case by (simp add: succeed_def)
next
  case (Suc n)
  have len: "offset + 8 \<le> length tvb" and rest: "(offset + 8) + 8 * n \<le> length tvb"
    using Suc.prems by simp_all
  have "PDRsiInstances_entries tvb offset (Suc n) s =
      (Inr (offset + 8 + 8 * n), s,
       PDRsiInstance_record tvb offset @
       concat (map (\<lambda>i. PDRsiInstance_record tvb (offset + 8 + 8 * i)) [0..<n]))"
    by (simp only: PDRsiInstances_entries_step [OF len] Suc.IH [OF rest] prod.case)
  then show ?case
    by (simp only: PDRsiInstance_records_step concat.simps mult_Suc_right add.assoc)
qed

lemma PDRsiInstances_version:
  "u8BlockVersionHigh \<noteq> 1 \<or> u8BlockVersionLow \<noteq> 0 \<Longrightarrow>
   dissect_PDRsiInstances_block tvb offset u8BlockVersionHigh u8BlockVersionLow s =
     (Inr offset, s, [ExpertInfo ''Block version %u.%u not implemented yet!''
                        [unat u8BlockVersionHigh, unat u8BlockVersionLow]])"
  by (simp add: dissect_PDRsiInstances_block_def and_then_Inr output_defs)

lemma PDRsiInstances_layout:
  assumes "offset + 2 + 8 * unat (tvb_get_ntohs tvb offset) + 80 \<le> length tvb"
  shows "dissect_PDRsiInstances_block tvb offset 1 0 s =
     (Inr (offset + 2 + 8 * unat (tvb_get_ntohs tvb offset) + 80), s,
      [UInt hf_pn_rsi_number_of_entries offset 2 (unat (tvb_get_ntohs tvb offset)),
       AppendText '': NumberOfEntries:%u'' [unat (tvb_get_ntohs tvb offset)]]
      @ concat (map (\<lambda>i. PDRsiInstance_record tvb (offset + 2 + 8 * i))
                  [0..<unat (tvb_get_ntohs tvb offset)])
      @ [Item hf_pn_rsi_device_type (offset + 2 + 8 * unat (tvb_get_ntohs tvb offset)) 25,
         Item hf_pn_rsi_order_id (offset + 2 + 8 * unat (tvb_get_ntohs tvb offset) + 26) 20,
         Item hf_pn_rsi_im_serial_number (offset + 2 + 8 * unat (tvb_get_ntohs tvb offset) + 47) 16,
         Item hf_pn_rsi_hw_revision (offset + 2 + 8 * unat (tvb_get_ntohs tvb offset) + 64) 5,
         Item hf_pn_rsi_sw_revision_prefix (offset + 2 + 8 * unat (tvb_get_ntohs tvb offset) + 70) 1,
         Item hf_pn_rsi_sw_revision (offset + 2 + 8 * unat (tvb_get_ntohs tvb offset) + 71) 9])"
proof -
  define n where "n = unat (tvb_get_ntohs tvb offset)"
  have e: "PDRsiInstances_entries tvb (offset + 2) n s =
     (Inr (offset + 2 + 8 * n), s, concat (map (\<lambda>i. PDRsiInstance_record tvb (offset + 2 + 8 * i)) [0..<n]))"
    using assms by (intro PDRsiInstances_entries_ok) (simp add: n_def)
  have l: "offset + 2 + 8 * n + 80 \<le> length tvb" using assms by (simp add: n_def)
  show ?thesis
    unfolding n_def [symmetric]
    using l
    by (simp add: dissect_PDRsiInstances_block_def and_then_Inr codec_defs output_defs e
        n_def [symmetric] Let_def add.assoc del: add_2_eq_Suc' add_2_eq_Suc One_nat_def)
qed

text \<open>
  C8. The PDRsiInstances decoder accepts BlockVersion (1,0) only. For any other pair it
  writes the diagnostic, returns the offset unchanged and decodes no field. For (1,0) and
  a buffer that holds the block, it reads the 16-bit NumberOfEntries, then that many
  8-byte records, then DeviceType (25 bytes and 1 gap), OrderID (20 and 1),
  IM_Serial_Number (16 and 1), HWRevision (5 and 1), SWRevisionPrefix (1, no gap) and
  SWRevision (9), and returns the offset after them.
\<close>

theorem C8_PDRsiInstances_block:
  "(u8BlockVersionHigh \<noteq> 1 \<or> u8BlockVersionLow \<noteq> 0 \<longrightarrow>
      dissect_PDRsiInstances_block tvb offset u8BlockVersionHigh u8BlockVersionLow s =
        (Inr offset, s, [ExpertInfo ''Block version %u.%u not implemented yet!''
                           [unat u8BlockVersionHigh, unat u8BlockVersionLow]]))
   \<and> (let n = unat (tvb_get_ntohs tvb offset); strings = offset + 2 + 8 * n in
        strings + 80 \<le> length tvb \<longrightarrow>
        dissect_PDRsiInstances_block tvb offset 1 0 s =
          (Inr (strings + 80), s,
           [UInt hf_pn_rsi_number_of_entries offset 2 n, AppendText '': NumberOfEntries:%u'' [n]]
           @ concat (map (\<lambda>i. PDRsiInstance_record tvb (offset + 2 + 8 * i)) [0..<n])
           @ [Item hf_pn_rsi_device_type strings 25,
              Item hf_pn_rsi_order_id (strings + 26) 20,
              Item hf_pn_rsi_im_serial_number (strings + 47) 16,
              Item hf_pn_rsi_hw_revision (strings + 64) 5,
              Item hf_pn_rsi_sw_revision_prefix (strings + 70) 1,
              Item hf_pn_rsi_sw_revision (strings + 71) 9]))"
  unfolding Let_def
  using PDRsiInstances_version [of u8BlockVersionHigh u8BlockVersionLow tvb offset s]
    PDRsiInstances_layout [of offset tvb s]
  by blast

theorem C8_PDRsiInstances_block_witness:
  "(2 :: 8 word) \<noteq> 1
   \<and> dissect_PDRsiInstances_block
         ([0, 1, 0, 0x2A, 0x01, 0x02, 0, 1, 2, 0] @ replicate 80 0x20) 0 2 0 no_tables =
       (Inr 0, no_tables, [ExpertInfo ''Block version %u.%u not implemented yet!'' [2, 0]])
   \<and> 0 + 2 + 8 * 1 + 80 \<le> length ([0, 1, 0, 0x2A, 0x01, 0x02, 0, 1, 2, 0 :: 8 word] @ replicate 80 0x20)
   \<and> dissect_PDRsiInstances_block
         ([0, 1, 0, 0x2A, 0x01, 0x02, 0, 1, 2, 0] @ replicate 80 0x20) 0 1 0 no_tables =
       (Inr 90, no_tables,
        [UInt hf_pn_rsi_number_of_entries 0 2 1,
         AppendText '': NumberOfEntries:%u'' [1],
         Item hf_pn_rsi_pd_rsi_instance 2 0,
         UInt hf_pn_rsi_vendor_id 2 2 42,
         UInt hf_pn_rsi_device_id 4 2 258,
         UInt hf_pn_rsi_instance_id 6 2 1,
         UInt hf_pn_rsi_interface 8 1 2,
         AppendText '': VendorID:%u, DeviceID:%u, InstanceID:%u, RsiInterface:%u'' [42, 258, 1, 2],
         Padding 9 1,
         Item hf_pn_rsi_device_type 10 25,
         Item hf_pn_rsi_order_id 36 20,
         Item hf_pn_rsi_im_serial_number 57 16,
         Item hf_pn_rsi_hw_revision 74 5,
         Item hf_pn_rsi_sw_revision_prefix 80 1,
         Item hf_pn_rsi_sw_revision 81 9])"
proof -
  let ?tvb = "[0, 1, 0, 0x2A, 0x01, 0x02, 0, 1, 2, 0 :: 8 word] @ replicate 80 0x20"
  have n: "unat (tvb_get_ntohs ?tvb 0) = 1"
    by (simp add: tvb_get_ntohs_def)
  have v: "(2 :: 8 word) \<noteq> 1 \<or> (0 :: 8 word) \<noteq> 0" by simp
  have l: "0 + 2 + 8 * unat (tvb_get_ntohs ?tvb 0) + 80 \<le> length ?tvb"
    unfolding n by simp
  from C8_PDRsiInstances_block [of 2 0 ?tvb 0 no_tables] v l
  have a: "dissect_PDRsiInstances_block ?tvb 0 2 0 no_tables =
       (Inr 0, no_tables, [ExpertInfo ''Block version %u.%u not implemented yet!'' [2, 0]])"
    and b: "dissect_PDRsiInstances_block ?tvb 0 1 0 no_tables =
          (Inr (0 + 2 + 8 * 1 + 80), no_tables,
           [UInt hf_pn_rsi_number_of_entries 0 2 1, AppendText '': NumberOfEntries:%u'' [1]]
           @ concat (map (\<lambda>i. PDRsiInstance_record ?tvb (0 + 2 + 8 * i)) [0..<1])
           @ [Item hf_pn_rsi_device_type (0 + 2 + 8 * 1) 25,
              Item hf_pn_rsi_order_id (0 + 2 + 8 * 1 + 26) 20,
              Item hf_pn_rsi_im_serial_number (0 + 2 + 8 * 1 + 47) 16,
              Item hf_pn_rsi_hw_revision (0 + 2 + 8 * 1 + 64) 5,
              Item hf_pn_rsi_sw_revision_prefix (0 + 2 + 8 * 1 + 70) 1,
              Item hf_pn_rsi_sw_revision (0 + 2 + 8 * 1 + 71) 9])"
    unfolding Let_def n by simp_all
  have rec: "concat (map (\<lambda>i. PDRsiInstance_record ?tvb (0 + 2 + 8 * i)) [0..<1]) =
      [Item hf_pn_rsi_pd_rsi_instance 2 0,
       UInt hf_pn_rsi_vendor_id 2 2 42,
       UInt hf_pn_rsi_device_id 4 2 258,
       UInt hf_pn_rsi_instance_id 6 2 1,
       UInt hf_pn_rsi_interface 8 1 2,
       AppendText '': VendorID:%u, DeviceID:%u, InstanceID:%u, RsiInterface:%u'' [42, 258, 1, 2],
       Padding 9 1]"
    by (simp add: PDRsiInstance_record_def tvb_get_ntohs_def)
  show ?thesis
    using v a b rec n by simp
qed

lemma flow_conversation_tables:
  "flow_conversation pinfo s = (conv, s1) \<Longrightarrow> pn_rsi_reassembly_table s1 = pn_rsi_reassembly_table s"
  by (auto simp add: flow_conversation_def conversation_new_def Let_def split: option.splits)

lemma engine_standalone:
  assumes "u8MoreFrag = 0"
    and "flow_conversation pinfo s = (conv, s1)"
    and "fragment_get (pn_rsi_reassembly_table s1) pinfo conv = None"
    and "fragment_get_reassembled_id (pn_rsi_reassembly_table s1) pinfo conv = None"
  shows "dissect_pn_rta_remaining_user_data_bytes c tvb offset pinfo len u8MoreFrag opnum type s =
           (blocks c tvb offset, s1, [Blocks offset])"
  using assms by (simp add: dissect_pn_rta_remaining_user_data_bytes_def dissect_blocks_def)

text \<open>What the engine does with the tables: nothing, or one call of \<open>fragment_add_seq_next\<close>.\<close>

lemma engine_tables:
  assumes "flow_conversation pinfo s = (conv, s1)"
  shows "fst (snd (dissect_pn_rta_remaining_user_data_bytes c tvb offset pinfo len u8MoreFrag opnum type s)) =
     (if (u8MoreFrag = 0 \<and> fragment_get (pn_rsi_reassembly_table s1) pinfo conv = None
            \<and> fragment_get_reassembled_id (pn_rsi_reassembly_table s1) pinfo conv = None)
          \<or> visited pinfo
      then s1
      else s1\<lparr>pn_rsi_reassembly_table :=
                fragment_add_seq_next (pn_rsi_reassembly_table s1) tvb offset pinfo conv len u8MoreFrag\<rparr>)"
  using assms
  by (simp add: dissect_pn_rta_remaining_user_data_bytes_def and_then_Inr codec_defs output_defs block_defs
      Let_def split: prod.splits option.splits sum.splits)

lemma engine_visited:
  assumes "visited pinfo"
  shows "pn_rsi_reassembly_table (fst (snd (dissect_pn_rta_remaining_user_data_bytes c tvb offset pinfo len
            u8MoreFrag opnum type s))) = pn_rsi_reassembly_table s"
proof -
  obtain conv s1 where fc: "flow_conversation pinfo s = (conv, s1)"
    by (cases "flow_conversation pinfo s")
  show ?thesis
    using assms flow_conversation_tables [OF fc] by (simp add: engine_tables [OF fc])
qed

text \<open>What the engine writes when the arrival belongs to a completed group.\<close>

lemma engine_completed:
  assumes "flow_conversation pinfo s = (conv, s1)"
    and "dissect_pn_rta_remaining_user_data_bytes c tvb offset pinfo len u8MoreFrag opnum type s = (r, s', evs)"
    and "fragment_get_reassembled_id (pn_rsi_reassembly_table s') pinfo conv = Some h"
  shows "if num pinfo = reassembled_in h
         then r = rsi_blocks c (tvb_data h) 0 opnum type
              \<and> evs = [ColInfo (if u8MoreFrag \<noteq> 0 then '' [PN IO RSI Segment]''
                                  else '' [Last PN IO RSI Segment]''),
                        ReassembledData (tvb_data h),
                        Item hf_pn_rsi_data_payload 0 (length (tvb_data h)),
                        RsiBlocks (tvb_data h) 0 opnum type]
         else r = Inr offset
              \<and> evs = [ColInfo (if u8MoreFrag \<noteq> 0 then '' [PN IO RSI Segment]''
                                  else '' [Last PN IO RSI Segment]''),
                        GeneratedUInt hf_pn_rsi_reassembled_in (unat (reassembled_in h))]"
  using assms
  by (auto simp add: dissect_pn_rta_remaining_user_data_bytes_def and_then_Inr codec_defs output_defs block_defs
      Let_def split: prod.splits option.splits sum.splits if_splits)
lemma keeps_and_then:
  "keeps_reassembly_table m \<Longrightarrow> (\<And>a. keeps_reassembly_table (f a)) \<Longrightarrow>
   keeps_reassembly_table (\<lambda>s. and_then (m s) f)"
  unfolding keeps_reassembly_table_def and_then_def
  by (auto split: prod.splits sum.splits) (metis fst_conv snd_conv)+

lemma keeps_if:
  "(b \<Longrightarrow> keeps_reassembly_table f) \<Longrightarrow> (\<not> b \<Longrightarrow> keeps_reassembly_table g) \<Longrightarrow>
   keeps_reassembly_table (\<lambda>s. if b then f s else g s)"
  by (simp add: keeps_reassembly_table_def)

lemma keeps_case_prod:
  "(\<And>x y. keeps_reassembly_table (g x y)) \<Longrightarrow> keeps_reassembly_table (case_prod g a)"
  by (cases a) simp

lemma keeps_primitives:
  "keeps_reassembly_table (succeed a)"
  "keeps_reassembly_table (emit e)"
  "keeps_reassembly_table (col_append_str txt)"
  "keeps_reassembly_table (col_append_format fmt args)"
  "keeps_reassembly_table (col_set_str txt)"
  "keeps_reassembly_table (proto_item_append_text fmt args)"
  "keeps_reassembly_table (proto_item_set_len n)"
  "keeps_reassembly_table (expert_add_info_format fmt args)"
  "keeps_reassembly_table (proto_tree_add_protocol_format title start len)"
  "keeps_reassembly_table (proto_tree_add_uint h v)"
  "keeps_reassembly_table (dissect_dcerpc_uint8 tvb offset h)"
  "keeps_reassembly_table (dissect_dcerpc_uint16 tvb offset h)"
  "keeps_reassembly_table (dissect_dcerpc_uint32 tvb offset h)"
  "keeps_reassembly_table (proto_tree_add_item h tvb start len)"
  "keeps_reassembly_table (dissect_pn_undecoded tvb offset len)"
  "keeps_reassembly_table (dissect_pn_padding tvb offset len)"
  "keeps_reassembly_table (dissect_pn_user_data tvb offset len txt)"
  "keeps_reassembly_table (dissect_PNIO_status c tvb offset)"
  by (simp_all add: keeps_reassembly_table_def output_defs codec_defs block_defs)

lemmas keeps_intros = keeps_and_then keeps_if keeps_case_prod keeps_primitives

lemma keeps_engine:
  "visited pinfo \<Longrightarrow>
   keeps_reassembly_table (dissect_pn_rta_remaining_user_data_bytes c tvb offset pinfo len u8MoreFrag opnum type)"
  by (simp add: keeps_reassembly_table_def engine_visited)

lemma sample_flow_new:
  "flow_conversation (sample_frame n v) no_tables =
     (0, no_tables\<lparr>conversations := [([0x0A, 0, 0, 1], [0x0A, 0, 0, 2], 1, 2)]\<rparr>)"
  by (simp add: flow_conversation_def sample_frame_def no_tables_def find_conversation_def
      conversation_new_def)

lemma first_fragment_state_eq:
  "first_fragment_state =
     \<lparr>conversations = [([0x0A, 0, 0, 1], [0x0A, 0, 0, 2], 1, 2)],
      pn_rsi_reassembly_table =
        \<lparr>fragment_table = (\<lambda>_. None)(([0x0A, 0, 0, 1], [0x0A, 0, 0, 2], 0) := Some [(1, [1, 2, 3])]),
         reassembled_table = (\<lambda>_. None)\<rparr>\<rparr>"
  unfolding first_fragment_state_def
  by (simp add: engine_tables [OF sample_flow_new] fragment_add_seq_next_def)
     (simp add: sample_frame_def no_tables_def)

lemma sample_flow_found:
  "flow_conversation (sample_frame n v) first_fragment_state = (0, first_fragment_state)"
  by (simp add: first_fragment_state_eq flow_conversation_def sample_frame_def find_conversation_def)

lemma first_fragment_state_lookup:
  "fragment_get (pn_rsi_reassembly_table first_fragment_state) (sample_frame n v) 0 = Some [(1, [1, 2, 3])]"
  "fragment_get_reassembled_id (pn_rsi_reassembly_table first_fragment_state) (sample_frame n v) 0 = None"
  by (simp_all add: first_fragment_state_eq fragment_get_def fragment_get_reassembled_id_def sample_frame_def Let_def)

lemma last_fragment_state_eq:
  "last_fragment_state =
     first_fragment_state\<lparr>pn_rsi_reassembly_table :=
       fragment_add_seq_next (pn_rsi_reassembly_table first_fragment_state) [4, 5] 0
         (sample_frame 2 False) 0 2 0\<rparr>"
  unfolding last_fragment_state_def
  by (simp add: engine_tables [OF sample_flow_found] first_fragment_state_lookup)
     (simp add: sample_frame_def)

lemma sample_flow_found_last:
  "flow_conversation (sample_frame n v) last_fragment_state = (0, last_fragment_state)"
  by (simp add: last_fragment_state_eq first_fragment_state_eq flow_conversation_def sample_frame_def
      find_conversation_def)

lemma last_fragment_state_lookup:
  "fragment_get (pn_rsi_reassembly_table last_fragment_state) (sample_frame n v) 0 = None"
  "fragment_get_reassembled_id (pn_rsi_reassembly_table last_fragment_state) (sample_frame 1 v) 0 =
     Some \<lparr>reassembled_in = 2, tvb_data = [1, 2, 3, 4, 5]\<rparr>"
  "fragment_get_reassembled_id (pn_rsi_reassembly_table last_fragment_state) (sample_frame 2 v) 0 =
     Some \<lparr>reassembled_in = 2, tvb_data = [1, 2, 3, 4, 5]\<rparr>"
  "fragment_get_reassembled_id (pn_rsi_reassembly_table last_fragment_state) (sample_frame 3 v) 0 = None"
  by (simp_all add: last_fragment_state_eq first_fragment_state_eq fragment_add_seq_next_def
      fragment_get_def fragment_get_reassembled_id_def sample_frame_def Let_def)
lemma keeps_FOpnumOffset: "keeps_reassembly_table (dissect_FOpnumOffset tvb offset)"
  unfolding dissect_FOpnumOffset_def [abs_def]
  by (intro keeps_intros)

lemma keeps_RSIAdditionalFlags: "keeps_reassembly_table (dissect_RSIAdditionalFlags tvb offset)"
  unfolding dissect_RSIAdditionalFlags_def [abs_def] Let_def
  by (intro keeps_intros)

lemma keeps_SVCS:
  "visited pinfo \<Longrightarrow>
   keeps_reassembly_table (dissect_RSI_SVCS_block c tvb offset pinfo u16VarPartLen u8MoreFrag off opnum)"
  unfolding dissect_RSI_SVCS_block_def [abs_def] Let_def
  by (intro keeps_intros keeps_engine)

lemma keeps_CONN:
  "visited pinfo \<Longrightarrow>
   keeps_reassembly_table (dissect_RSI_CONN_block c tvb offset pinfo u16VarPartLen u8MoreFrag off opnum)"
  unfolding dissect_RSI_CONN_block_def [abs_def] Let_def
  by (intro keeps_intros keeps_engine)

lemma keeps_SecurityAssociationContol:
  "visited pinfo \<Longrightarrow>
   keeps_reassembly_table
     (dissect_SecurityAssociationContol_block c tvb offset pinfo u16VarPartLen u8MoreFrag off opnum dsap)"
  unfolding dissect_SecurityAssociationContol_block_def [abs_def] Let_def
  by (intro keeps_intros keeps_engine)

lemma keeps_RSP:
  "visited pinfo \<Longrightarrow>
   keeps_reassembly_table (dissect_RSI_RSP_block c tvb offset pinfo u16VarPartLen u8MoreFrag off opnum)"
  unfolding dissect_RSI_RSP_block_def [abs_def] Let_def
  by (intro keeps_intros keeps_engine)

lemma keeps_FREQ_switch:
  "visited pinfo \<Longrightarrow>
   keeps_reassembly_table (FREQ_RTA_switch c tvb offset pinfo u16VarPartLen u8MoreFrag dsap off opnum)"
  unfolding FREQ_RTA_switch_def [abs_def]
  by (intro keeps_intros keeps_SVCS keeps_CONN keeps_SecurityAssociationContol)

lemma keeps_FREQ:
  "visited pinfo \<Longrightarrow>
   keeps_reassembly_table (dissect_FREQ_RTA_block c tvb offset pinfo u16VarPartLen u8MoreFrag dsap)"
  unfolding dissect_FREQ_RTA_block_def [abs_def] Let_def
  by (intro keeps_intros keeps_FOpnumOffset keeps_FREQ_switch)

lemma keeps_FRSP:
  "visited pinfo \<Longrightarrow>
   keeps_reassembly_table (dissect_FRSP_RTA_block c tvb offset pinfo u16VarPartLen u8MoreFrag)"
  unfolding dissect_FRSP_RTA_block_def [abs_def] Let_def
  by (intro keeps_intros keeps_FOpnumOffset keeps_RSP)

lemma keeps_PNIO_RSI:
  "visited pinfo \<Longrightarrow> keeps_reassembly_table (dissect_PNIO_RSI c tvb offset pinfo)"
  unfolding dissect_PNIO_RSI_def [abs_def] Let_def
  by (intro keeps_intros keeps_RSIAdditionalFlags keeps_FREQ keeps_FRSP)

lemma keeps_PNIO_RSI_with_security:
  "visited pinfo \<Longrightarrow> keeps_reassembly_table (dissect_PNIO_RSI_with_security c tvb offset pinfo)"
  unfolding dissect_PNIO_RSI_with_security_def [abs_def] Let_def
  by (intro keeps_intros keeps_RSIAdditionalFlags keeps_FREQ keeps_FRSP)

lemma keeps_funpow:
  "keeps_reassembly_table f \<Longrightarrow>
   pn_rsi_reassembly_table (((\<lambda>s. fst (snd (f s))) ^^ n) s) = pn_rsi_reassembly_table s"
  by (induction n) (simp_all add: keeps_reassembly_table_def)

subsection \<open>C4: the standalone segment\<close>

text \<open>
  C4. For every arrival with MoreFrag = false for which the flow has no fragment group
  and the frame no completed reassembly, the engine hands the current buffer to the
  block decoder at the current offset and returns what that returns; the reassembly
  table is left as it was, so no group is started and no byte is buffered.
\<close>

theorem C4_standalone_segment:
  assumes "u8MoreFrag = 0"
    and "flow_conversation pinfo s = (conv, s1)"
    and "fragment_get (pn_rsi_reassembly_table s1) pinfo conv = None"
    and "fragment_get_reassembled_id (pn_rsi_reassembly_table s1) pinfo conv = None"
  shows "dissect_pn_rta_remaining_user_data_bytes c tvb offset pinfo len u8MoreFrag opnum type s =
           (blocks c tvb offset, s1, [Blocks offset])
         \<and> pn_rsi_reassembly_table s1 = pn_rsi_reassembly_table s
         \<and> dissect_blocks c tvb offset s1 = (blocks c tvb offset, s1, [Blocks offset])"
  using engine_standalone [OF assms] flow_conversation_tables [OF assms(2)]
  by (simp add: dissect_blocks_def)

theorem C4_standalone_segment_witness:
  "(0 :: 8 word) = 0
   \<and> flow_conversation (sample_frame 3 False) last_fragment_state = (0, last_fragment_state)
   \<and> fragment_get (pn_rsi_reassembly_table last_fragment_state) (sample_frame 3 False) 0 = None
   \<and> fragment_get_reassembled_id (pn_rsi_reassembly_table last_fragment_state) (sample_frame 3 False) 0 = None
   \<and> dissect_pn_rta_remaining_user_data_bytes sample_collaborators [7, 8, 9] 1 (sample_frame 3 False) 2 0 3
         PDU_TYPE_REQ last_fragment_state =
       (Inr 3, last_fragment_state, [Blocks 1])"
proof -
  have h1: "(0 :: 8 word) = 0" by simp
  note h2 = sample_flow_found_last [of 3 False]
  note h3 = last_fragment_state_lookup(1) [of 3 False]
  note h4 = last_fragment_state_lookup(4) [of False]
  show ?thesis
    using h1 h2 h3 h4
      C4_standalone_segment [OF h1 h2 h3 h4, of sample_collaborators "[7, 8, 9]" 1 2 3 PDU_TYPE_REQ]
    by (simp add: sample_collaborators_def)
qed

subsection \<open>C3: a completed group is decoded at the completing arrival\<close>

text \<open>
  C3. Whenever a dissection finds the arrival in a completed fragment group, the engine
  decodes the reassembled buffer exactly once, from offset 0 and with the Opcode and PDU
  type it was given, if the frame is the one the group was reassembled in; for every
  other arrival of the group it writes the back-reference to that frame and decodes
  nothing.
\<close>

theorem C3_reassembled_decode_at_completing_arrival:
  assumes "flow_conversation pinfo s = (conv, s1)"
    and "dissect_pn_rta_remaining_user_data_bytes c tvb offset pinfo len u8MoreFrag opnum type s = (r, s', evs)"
    and "fragment_get_reassembled_id (pn_rsi_reassembly_table s') pinfo conv = Some h"
  shows "if num pinfo = reassembled_in h
         then r = rsi_blocks c (tvb_data h) 0 opnum type
              \<and> evs = [ColInfo (if u8MoreFrag \<noteq> 0 then '' [PN IO RSI Segment]''
                                  else '' [Last PN IO RSI Segment]''),
                        ReassembledData (tvb_data h),
                        Item hf_pn_rsi_data_payload 0 (length (tvb_data h)),
                        RsiBlocks (tvb_data h) 0 opnum type]
         else r = Inr offset
              \<and> evs = [ColInfo (if u8MoreFrag \<noteq> 0 then '' [PN IO RSI Segment]''
                                  else '' [Last PN IO RSI Segment]''),
                        GeneratedUInt hf_pn_rsi_reassembled_in (unat (reassembled_in h))]"
  using engine_completed [OF assms] .

theorem C3_reassembled_decode_at_completing_arrival_witness:
  "dissect_pn_rta_remaining_user_data_bytes sample_collaborators [4, 5] 0 (sample_frame 2 False) 2 0 2
       PDU_TYPE_REQ first_fragment_state =
     (Inr 5, last_fragment_state,
      [ColInfo '' [Last PN IO RSI Segment]'', ReassembledData [1, 2, 3, 4, 5],
       Item hf_pn_rsi_data_payload 0 5, RsiBlocks [1, 2, 3, 4, 5] 0 2 PDU_TYPE_REQ])
   \<and> dissect_pn_rta_remaining_user_data_bytes sample_collaborators [1, 2, 3] 0 (sample_frame 1 True) 3 1 2
       PDU_TYPE_REQ last_fragment_state =
     (Inr 0, last_fragment_state,
      [ColInfo '' [PN IO RSI Segment]'', GeneratedUInt hf_pn_rsi_reassembled_in 2])"
proof -
  let ?last = "dissect_pn_rta_remaining_user_data_bytes sample_collaborators [4, 5] 0 (sample_frame 2 False)
      2 0 2 PDU_TYPE_REQ first_fragment_state"
  let ?again = "dissect_pn_rta_remaining_user_data_bytes sample_collaborators [1, 2, 3] 0 (sample_frame 1 True)
      3 1 2 PDU_TYPE_REQ last_fragment_state"
  have s2: "fst (snd ?last) = last_fragment_state"
    by (simp add: last_fragment_state_def)
  have a: "?last = (fst ?last, last_fragment_state, snd (snd ?last))"
    using s2 by (metis prod.collapse)
  have s1: "fst (snd ?again) = last_fragment_state"
    by (simp add: engine_tables [OF sample_flow_found_last]) (simp add: sample_frame_def)
  have b: "?again = (fst ?again, last_fragment_state, snd (snd ?again))"
    using s1 by (metis prod.collapse)
  from C3_reassembled_decode_at_completing_arrival [OF sample_flow_found a last_fragment_state_lookup(3)]
  have "fst ?last = Inr 5 \<and> snd (snd ?last) =
      [ColInfo '' [Last PN IO RSI Segment]'', ReassembledData [1, 2, 3, 4, 5],
       Item hf_pn_rsi_data_payload 0 5, RsiBlocks [1, 2, 3, 4, 5] 0 2 PDU_TYPE_REQ]"
    by (simp add: sample_frame_def sample_collaborators_def)
  moreover
  from C3_reassembled_decode_at_completing_arrival [OF sample_flow_found_last b last_fragment_state_lookup(2)]
  have "fst ?again = Inr 0 \<and> snd (snd ?again) =
      [ColInfo '' [PN IO RSI Segment]'', GeneratedUInt hf_pn_rsi_reassembled_in 2]"
    by (simp add: sample_frame_def)
  ultimately show ?thesis
    using a b by simp
qed

subsection \<open>C10: the fragment table changes on the first pass only\<close>

text \<open>
  C10. One run of the engine leaves the reassembly table as it was or calls
  \<open>fragment_add_seq_next\<close> on it once, and the call is made only for a frame that has not
  been visited. So a dissection of a visited frame, plain or security-wrapped, leaves
  the table as it was, and so does any number of them in a row: the payload is added to
  the flow's group by the first pass and never again.
\<close>

theorem C10_fragment_table_first_pass_only:
  "(case flow_conversation pinfo s of
      (conv, s1) \<Rightarrow>
        pn_rsi_reassembly_table
          (fst (snd (dissect_pn_rta_remaining_user_data_bytes c tvb offset pinfo len u8MoreFrag opnum type s)))
        = (if (u8MoreFrag = 0 \<and> fragment_get (pn_rsi_reassembly_table s) pinfo conv = None
                 \<and> fragment_get_reassembled_id (pn_rsi_reassembly_table s) pinfo conv = None)
               \<or> visited pinfo
           then pn_rsi_reassembly_table s
           else fragment_add_seq_next (pn_rsi_reassembly_table s) tvb offset pinfo conv len u8MoreFrag))
   \<and> pn_rsi_reassembly_table (fst (snd (dissect_PNIO_RSI c tvb offset (pinfo\<lparr>visited := True\<rparr>) s)))
       = pn_rsi_reassembly_table s
   \<and> pn_rsi_reassembly_table
         (fst (snd (dissect_PNIO_RSI_with_security c tvb offset (pinfo\<lparr>visited := True\<rparr>) s)))
       = pn_rsi_reassembly_table s
   \<and> pn_rsi_reassembly_table
         (((\<lambda>s. fst (snd (dissect_PNIO_RSI c tvb offset (pinfo\<lparr>visited := True\<rparr>) s))) ^^ n) s)
       = pn_rsi_reassembly_table s"
proof -
  obtain conv s1 where fc: "flow_conversation pinfo s = (conv, s1)"
    by (cases "flow_conversation pinfo s")
  have v: "visited (pinfo\<lparr>visited := True\<rparr>)" by simp
  have "pn_rsi_reassembly_table
          (fst (snd (dissect_pn_rta_remaining_user_data_bytes c tvb offset pinfo len u8MoreFrag opnum type s)))
        = (if (u8MoreFrag = 0 \<and> fragment_get (pn_rsi_reassembly_table s) pinfo conv = None
                 \<and> fragment_get_reassembled_id (pn_rsi_reassembly_table s) pinfo conv = None)
               \<or> visited pinfo
           then pn_rsi_reassembly_table s
           else fragment_add_seq_next (pn_rsi_reassembly_table s) tvb offset pinfo conv len u8MoreFrag)"
    using flow_conversation_tables [OF fc] by (simp add: engine_tables [OF fc])
  moreover have "pn_rsi_reassembly_table (fst (snd (dissect_PNIO_RSI c tvb offset (pinfo\<lparr>visited := True\<rparr>) s)))
       = pn_rsi_reassembly_table s"
    using keeps_PNIO_RSI [OF v] by (simp add: keeps_reassembly_table_def)
  moreover have "pn_rsi_reassembly_table
         (fst (snd (dissect_PNIO_RSI_with_security c tvb offset (pinfo\<lparr>visited := True\<rparr>) s)))
       = pn_rsi_reassembly_table s"
    using keeps_PNIO_RSI_with_security [OF v] by (simp add: keeps_reassembly_table_def)
  moreover note keeps_funpow [OF keeps_PNIO_RSI [OF v], where n = n and s = s]
  ultimately show ?thesis
    using fc by simp
qed

theorem C10_fragment_table_first_pass_only_witness:
  "fragment_get
     (pn_rsi_reassembly_table
        (fst (snd (dissect_pn_rta_remaining_user_data_bytes sample_collaborators [1, 2, 3] 0
                     (sample_frame 1 True) 3 1 2 PDU_TYPE_REQ first_fragment_state))))
     (sample_frame 1 True) 0 = Some [(1, [1, 2, 3])]
   \<and> fragment_get
     (pn_rsi_reassembly_table
        (fst (snd (dissect_pn_rta_remaining_user_data_bytes sample_collaborators [1, 2, 3] 0
                     (sample_frame 1 False) 3 1 2 PDU_TYPE_REQ first_fragment_state))))
     (sample_frame 1 False) 0 = Some [(1, [1, 2, 3]), (1, [1, 2, 3])]"
proof -
  note t = C10_fragment_table_first_pass_only [where s = first_fragment_state and u8MoreFrag = 1
      and c = sample_collaborators and tvb = "[1, 2, 3]" and offset = 0 and len = 3 and opnum = 2
      and type = PDU_TYPE_REQ and n = 0]
  have a: "pn_rsi_reassembly_table
        (fst (snd (dissect_pn_rta_remaining_user_data_bytes sample_collaborators [1, 2, 3] 0
                     (sample_frame 1 True) 3 1 2 PDU_TYPE_REQ first_fragment_state)))
      = pn_rsi_reassembly_table first_fragment_state"
    using t [where pinfo = "sample_frame 1 True"] by (simp add: sample_flow_found) (simp add: sample_frame_def)
  have b: "pn_rsi_reassembly_table
        (fst (snd (dissect_pn_rta_remaining_user_data_bytes sample_collaborators [1, 2, 3] 0
                     (sample_frame 1 False) 3 1 2 PDU_TYPE_REQ first_fragment_state)))
      = fragment_add_seq_next (pn_rsi_reassembly_table first_fragment_state) [1, 2, 3] 0
          (sample_frame 1 False) 0 3 1"
    using t [where pinfo = "sample_frame 1 False"] by (simp add: sample_flow_found) (simp add: sample_frame_def)
  show ?thesis
    unfolding a b
    by (simp add: first_fragment_state_eq fragment_add_seq_next_def fragment_get_def sample_frame_def Let_def)
qed

lemma payload_length_signed:
  fixes v :: "32 word" and u16VarPartLen :: "16 word"
  shows "sint (FOpnumOffset_Offset v + ucast u16VarPartLen - 4 - 4) =
         uint (FOpnumOffset_Offset v) + uint u16VarPartLen - 4 - 4"
proof -
  define x where "x = uint (FOpnumOffset_Offset v) + uint u16VarPartLen - 4 - 4"
  have a: "uint (FOpnumOffset_Offset v) \<le> 0xFFFFFF"
  proof -
    have "FOpnumOffset_Offset v \<le> 0xFFFFFF"
      unfolding FOpnumOffset_Offset_def by (rule word_and_le1)
    then show ?thesis by (simp add: word_le_def)
  qed
  have b: "uint u16VarPartLen < 0x10000"
    using uint_bounded [of u16VarPartLen] by simp
  have c: "0 \<le> uint (FOpnumOffset_Offset v)" "0 \<le> uint u16VarPartLen" by simp_all
  have w: "FOpnumOffset_Offset v + ucast u16VarPartLen - 4 - 4 = (word_of_int x :: 32 word)"
    unfolding x_def by simp
  have "sint (word_of_int x :: 32 word) = signed_take_bit 31 x"
    by (simp add: signed_of_int)
  also have "\<dots> = x"
    using a b c unfolding x_def by (intro signed_take_bit_int_eq_self) simp_all
  finally show ?thesis
    unfolding w x_def .
qed

lemma SVCS_first:
  "off = 0 \<Longrightarrow> offset + 4 \<le> length tvb \<Longrightarrow>
   dissect_RSI_SVCS_block c tvb offset pinfo u16VarPartLen u8MoreFrag off opnum s =
     and_then
       (Inr (offset + 4), s,
        [Item hf_pn_rsi_svcs_block offset 0,
         UInt hf_pn_rsi_rsp_max_length offset 4 (unat (tvb_get_ntohl tvb offset))])
       (\<lambda>offset s.
          if 0 < sint (off + ucast u16VarPartLen - 4 - 4 :: 32 word)
          then dissect_pn_rta_remaining_user_data_bytes c tvb offset pinfo
                 (length tvb - offset) u8MoreFrag opnum PDU_TYPE_REQ s
          else (Inr offset, s, []))"
  by (simp add: dissect_RSI_SVCS_block_def and_then_def codec_defs output_defs add.assoc
      del: add_2_eq_Suc' add_2_eq_Suc One_nat_def split: prod.splits)

lemma SVCS_first_truncated:
  "off = 0 \<Longrightarrow> \<not> offset + 4 \<le> length tvb \<Longrightarrow>
   dissect_RSI_SVCS_block c tvb offset pinfo u16VarPartLen u8MoreFrag off opnum s =
     (Inl TruncatedInput, s, [Item hf_pn_rsi_svcs_block offset 0])"
  by (simp add: dissect_RSI_SVCS_block_def and_then_def codec_defs output_defs add.assoc
      del: add_2_eq_Suc' add_2_eq_Suc One_nat_def split: prod.splits)

lemma SVCS_continuation:
  "off \<noteq> 0 \<Longrightarrow>
   dissect_RSI_SVCS_block c tvb offset pinfo u16VarPartLen u8MoreFrag off opnum s =
     and_then
       (Inr offset, s,
        Item hf_pn_rsi_svcs_block offset 0 #
        (if u8MoreFrag = 0 then [AppendText '', RSI Header of SVCS is at first segment'' []] else []))
       (\<lambda>offset s.
          if 0 < sint (off + ucast u16VarPartLen - 4 - 4 :: 32 word)
          then dissect_pn_rta_remaining_user_data_bytes c tvb offset pinfo
                 (length tvb - offset) u8MoreFrag opnum PDU_TYPE_REQ s
          else (Inr offset, s, []))"
  by (simp add: dissect_RSI_SVCS_block_def and_then_def codec_defs output_defs add.assoc
      del: add_2_eq_Suc' add_2_eq_Suc One_nat_def split: prod.splits)

lemma CONN_first:
  "off = 0 \<Longrightarrow> offset + 12 \<le> length tvb \<Longrightarrow>
   dissect_RSI_CONN_block c tvb offset pinfo u16VarPartLen u8MoreFrag off opnum s =
     and_then
       (Inr (offset + 12), s,
        [Item hf_pn_rsi_conn_block offset 0,
         UInt hf_pn_rsi_rsp_max_length offset 4 (unat (tvb_get_ntohl tvb offset)),
         UInt hf_pn_rsi_vendor_id (offset + 4) 2 (unat (tvb_get_ntohs tvb (offset + 4))),
         UInt hf_pn_rsi_device_id (offset + 6) 2 (unat (tvb_get_ntohs tvb (offset + 6))),
         UInt hf_pn_rsi_instance_id (offset + 8) 2 (unat (tvb_get_ntohs tvb (offset + 8))),
         UInt hf_pn_rsi_interface (offset + 10) 1 (unat (tvb ! (offset + 10))),
         Padding (offset + 11) 1])
       (\<lambda>offset s.
          if 0 < sint (off + ucast u16VarPartLen - 4 - 4 :: 32 word)
          then dissect_pn_rta_remaining_user_data_bytes c tvb offset pinfo
                 (length tvb - offset) u8MoreFrag opnum PDU_TYPE_REQ s
          else (Inr offset, s, []))"
  by (simp add: dissect_RSI_CONN_block_def and_then_def codec_defs output_defs add.assoc
      del: add_2_eq_Suc' add_2_eq_Suc One_nat_def split: prod.splits)

lemma CONN_first_truncated:
  "off = 0 \<Longrightarrow> \<not> offset + 11 \<le> length tvb \<Longrightarrow>
   dissect_RSI_CONN_block c tvb offset pinfo u16VarPartLen u8MoreFrag off opnum s =
     (Inl TruncatedInput, s,
      Item hf_pn_rsi_conn_block offset 0
      # (if offset + 4 \<le> length tvb
         then [UInt hf_pn_rsi_rsp_max_length offset 4 (unat (tvb_get_ntohl tvb offset))] else [])
      @ (if offset + 6 \<le> length tvb
         then [UInt hf_pn_rsi_vendor_id (offset + 4) 2 (unat (tvb_get_ntohs tvb (offset + 4)))] else [])
      @ (if offset + 8 \<le> length tvb
         then [UInt hf_pn_rsi_device_id (offset + 6) 2 (unat (tvb_get_ntohs tvb (offset + 6)))] else [])
      @ (if offset + 10 \<le> length tvb
         then [UInt hf_pn_rsi_instance_id (offset + 8) 2 (unat (tvb_get_ntohs tvb (offset + 8)))] else []))"
  by (simp add: dissect_RSI_CONN_block_def and_then_def codec_defs output_defs add.assoc
      del: add_2_eq_Suc' add_2_eq_Suc One_nat_def split: prod.splits)

lemma CONN_continuation:
  "off \<noteq> 0 \<Longrightarrow>
   dissect_RSI_CONN_block c tvb offset pinfo u16VarPartLen u8MoreFrag off opnum s =
     and_then
       (Inr offset, s,
        Item hf_pn_rsi_conn_block offset 0 #
        (if u8MoreFrag = 0 then [AppendText '', RSI Header of CONN is at first segment'' []] else []))
       (\<lambda>offset s.
          if 0 < sint (off + ucast u16VarPartLen - 4 - 4 :: 32 word)
          then dissect_pn_rta_remaining_user_data_bytes c tvb offset pinfo
                 (length tvb - offset) u8MoreFrag opnum PDU_TYPE_REQ s
          else (Inr offset, s, []))"
  by (simp add: dissect_RSI_CONN_block_def and_then_def codec_defs output_defs add.assoc
      del: add_2_eq_Suc' add_2_eq_Suc One_nat_def split: prod.splits)

lemma SecurityAssociationContol_first_consap_truncated:
  "off = 0 \<Longrightarrow> \<not> offset + 11 \<le> length tvb \<Longrightarrow>
   dissect_SecurityAssociationContol_block c tvb offset pinfo u16VarPartLen u8MoreFrag off opnum 0xFFFF s =
     (Inl TruncatedInput, s,
      Item hf_pn_rsi_security_association_control offset 0
      # (if offset + 4 \<le> length tvb
         then [UInt hf_pn_rsi_rsp_max_length offset 4 (unat (tvb_get_ntohl tvb offset))] else [])
      @ (if offset + 6 \<le> length tvb
         then [UInt hf_pn_rsi_vendor_id (offset + 4) 2 (unat (tvb_get_ntohs tvb (offset + 4)))] else [])
      @ (if offset + 8 \<le> length tvb
         then [UInt hf_pn_rsi_device_id (offset + 6) 2 (unat (tvb_get_ntohs tvb (offset + 6)))] else [])
      @ (if offset + 10 \<le> length tvb
         then [UInt hf_pn_rsi_instance_id (offset + 8) 2 (unat (tvb_get_ntohs tvb (offset + 8)))] else []))"
  by (simp add: dissect_SecurityAssociationContol_block_def and_then_def codec_defs output_defs add.assoc
      del: add_2_eq_Suc' add_2_eq_Suc One_nat_def split: prod.splits)

lemma SecurityAssociationContol_first_other_truncated:
  "off = 0 \<Longrightarrow> \<not> offset + 4 \<le> length tvb \<Longrightarrow> dsap \<noteq> 0xFFFF \<Longrightarrow>
   dissect_SecurityAssociationContol_block c tvb offset pinfo u16VarPartLen u8MoreFrag off opnum dsap s =
     (Inl TruncatedInput, s, [Item hf_pn_rsi_security_association_control offset 0])"
  by (simp add: dissect_SecurityAssociationContol_block_def and_then_def codec_defs output_defs add.assoc
      del: add_2_eq_Suc' add_2_eq_Suc One_nat_def split: prod.splits)

lemma RSP_first:
  "off = 0 \<Longrightarrow>
   dissect_RSI_RSP_block c tvb offset pinfo u16VarPartLen u8MoreFrag off opnum s =
     and_then
       (pnio_status c tvb offset, s, [PNIOStatus offset])
       (\<lambda>offset s.
          if 0 < sint (off + ucast u16VarPartLen - 4 - 4 :: 32 word)
          then dissect_pn_rta_remaining_user_data_bytes c tvb offset pinfo
                 (length tvb - offset) u8MoreFrag opnum PDU_TYPE_RSP s
          else (Inr offset, s, []))"
  by (simp add: dissect_RSI_RSP_block_def and_then_def codec_defs output_defs block_defs add.assoc
      del: add_2_eq_Suc' add_2_eq_Suc One_nat_def split: prod.splits sum.splits)

lemma RSP_continuation:
  "off \<noteq> 0 \<Longrightarrow>
   dissect_RSI_RSP_block c tvb offset pinfo u16VarPartLen u8MoreFrag off opnum s =
     and_then
       (Inr offset, s,
        if u8MoreFrag = 0
        then [AppendText '', RSI Header of RSP is at first fragmented frame'' []]
        else [])
       (\<lambda>offset s.
          if 0 < sint (off + ucast u16VarPartLen - 4 - 4 :: 32 word)
          then dissect_pn_rta_remaining_user_data_bytes c tvb offset pinfo
                 (length tvb - offset) u8MoreFrag opnum PDU_TYPE_RSP s
          else (Inr offset, s, []))"
  by (simp add: dissect_RSI_RSP_block_def and_then_def codec_defs output_defs block_defs add.assoc
      del: add_2_eq_Suc' add_2_eq_Suc One_nat_def split: prod.splits sum.splits)

lemma SecurityAssociationContol_consap_payload:
  "off = 0 \<Longrightarrow> offset + 12 \<le> length tvb \<Longrightarrow>
   dissect_SecurityAssociationContol_block c tvb offset pinfo u16VarPartLen u8MoreFrag off opnum 0xFFFF s =
     and_then
       (Inr (offset + 12), s,
        [Item hf_pn_rsi_security_association_control offset 0,
         UInt hf_pn_rsi_rsp_max_length offset 4 (unat (tvb_get_ntohl tvb offset)),
         UInt hf_pn_rsi_vendor_id (offset + 4) 2 (unat (tvb_get_ntohs tvb (offset + 4))),
         UInt hf_pn_rsi_device_id (offset + 6) 2 (unat (tvb_get_ntohs tvb (offset + 6))),
         UInt hf_pn_rsi_instance_id (offset + 8) 2 (unat (tvb_get_ntohs tvb (offset + 8))),
         UInt hf_pn_rsi_interface (offset + 10) 1 (unat (tvb ! (offset + 10))),
         Padding (offset + 11) 1])
       (\<lambda>offset s.
          if 0 < sint (off + ucast u16VarPartLen - 4 - 4 :: 32 word)
          then dissect_pn_rta_remaining_user_data_bytes c tvb offset pinfo
                 (length tvb - offset) u8MoreFrag opnum PDU_TYPE_REQ s
          else (Inr offset, s, []))"
  by (simp add: dissect_SecurityAssociationContol_block_def and_then_def codec_defs output_defs add.assoc
      del: add_2_eq_Suc' add_2_eq_Suc One_nat_def split: prod.splits)

lemma SecurityAssociationContol_other_payload:
  "off = 0 \<Longrightarrow> offset + 4 \<le> length tvb \<Longrightarrow> dsap \<noteq> 0xFFFF \<Longrightarrow>
   dissect_SecurityAssociationContol_block c tvb offset pinfo u16VarPartLen u8MoreFrag off opnum dsap s =
     and_then
       (Inr (offset + 4), s,
        [Item hf_pn_rsi_security_association_control offset 0,
         UInt hf_pn_rsi_rsp_max_length offset 4 (unat (tvb_get_ntohl tvb offset))])
       (\<lambda>offset s.
          if 0 < sint (off + ucast u16VarPartLen - 4 - 4 :: 32 word)
          then dissect_pn_rta_remaining_user_data_bytes c tvb offset pinfo
                 (length tvb - offset) u8MoreFrag opnum PDU_TYPE_REQ s
          else (Inr offset, s, []))"
  by (simp add: dissect_SecurityAssociationContol_block_def and_then_def codec_defs output_defs add.assoc
      del: add_2_eq_Suc' add_2_eq_Suc One_nat_def split: prod.splits)

lemma SecurityAssociationContol_continuation_payload:
  "off \<noteq> 0 \<Longrightarrow>
   dissect_SecurityAssociationContol_block c tvb offset pinfo u16VarPartLen u8MoreFrag off opnum dsap s =
     and_then
       (Inr offset, s,
        Item hf_pn_rsi_security_association_control offset 0 #
        (if u8MoreFrag = 0
         then [AppendText '', RSI Header of SecurityAssociationControl is at first segment'' []]
         else []))
       (\<lambda>offset s.
          if 0 < sint (off + ucast u16VarPartLen - 4 - 4 :: 32 word)
          then dissect_pn_rta_remaining_user_data_bytes c tvb offset pinfo
                 (length tvb - offset) u8MoreFrag opnum PDU_TYPE_REQ s
          else (Inr offset, s, []))"
  by (simp add: dissect_SecurityAssociationContol_block_def and_then_def codec_defs output_defs add.assoc
      del: add_2_eq_Suc' add_2_eq_Suc One_nat_def split: prod.splits)

subsection \<open>C5: the length of the user payload\<close>

text \<open>
  C5. Each of the SVCS, CONN, SecurityAssociationControl and RSP block decoders computes
  the length of the user payload as FOpnumOffset.Offset + VarPartLen - 4 - RsiHeaderSize
  with RsiHeaderSize = 4; the 32-bit signed value it tests is that integer \<open>len\<close>. Each
  decoder writes its fixed fields and then, when \<open>len\<close> is strictly positive, hands the
  bytes that remain to \<open>dissect_pn_rta_remaining_user_data_bytes\<close>; when \<open>len\<close> is not
  strictly positive it returns the offset after the fixed fields, with the state as it
  was and nothing written after the fixed fields. A first segment (Offset = 0) has the
  fixed fields of its decoder, a continuation has none; a buffer that ends before the
  last fixed field that is read (the padding byte is skipped, not read) ends the decode
  with TruncatedInput.
\<close>

theorem C5_user_payload_length:
  fixes v :: "32 word" and u16VarPartLen :: "16 word"
  assumes "off = FOpnumOffset_Offset v"
    and "len = uint off + uint u16VarPartLen - 4 - 4"
  shows
    "sint (off + ucast u16VarPartLen - 4 - 4 :: 32 word) = len
     \<and> (off = 0 \<and> offset + 4 \<le> length tvb \<longrightarrow>
        dissect_RSI_SVCS_block c tvb offset pinfo u16VarPartLen u8MoreFrag off opnum s =
          and_then
            (Inr (offset + 4), s,
             [Item hf_pn_rsi_svcs_block offset 0,
              UInt hf_pn_rsi_rsp_max_length offset 4 (unat (tvb_get_ntohl tvb offset))])
            (\<lambda>offset s.
               if 0 < len
               then dissect_pn_rta_remaining_user_data_bytes c tvb offset pinfo
                      (length tvb - offset) u8MoreFrag opnum PDU_TYPE_REQ s
               else (Inr offset, s, [])))
     \<and> (off = 0 \<and> \<not> offset + 4 \<le> length tvb \<longrightarrow>
        dissect_RSI_SVCS_block c tvb offset pinfo u16VarPartLen u8MoreFrag off opnum s =
          (Inl TruncatedInput, s, [Item hf_pn_rsi_svcs_block offset 0]))
     \<and> (off \<noteq> 0 \<longrightarrow>
        dissect_RSI_SVCS_block c tvb offset pinfo u16VarPartLen u8MoreFrag off opnum s =
          and_then
            (Inr offset, s,
             Item hf_pn_rsi_svcs_block offset 0 #
             (if u8MoreFrag = 0 then [AppendText '', RSI Header of SVCS is at first segment'' []] else []))
            (\<lambda>offset s.
               if 0 < len
               then dissect_pn_rta_remaining_user_data_bytes c tvb offset pinfo
                      (length tvb - offset) u8MoreFrag opnum PDU_TYPE_REQ s
               else (Inr offset, s, [])))
     \<and> (off = 0 \<and> offset + 12 \<le> length tvb \<longrightarrow>
        dissect_RSI_CONN_block c tvb offset pinfo u16VarPartLen u8MoreFrag off opnum s =
          and_then
            (Inr (offset + 12), s,
             [Item hf_pn_rsi_conn_block offset 0,
              UInt hf_pn_rsi_rsp_max_length offset 4 (unat (tvb_get_ntohl tvb offset)),
              UInt hf_pn_rsi_vendor_id (offset + 4) 2 (unat (tvb_get_ntohs tvb (offset + 4))),
              UInt hf_pn_rsi_device_id (offset + 6) 2 (unat (tvb_get_ntohs tvb (offset + 6))),
              UInt hf_pn_rsi_instance_id (offset + 8) 2 (unat (tvb_get_ntohs tvb (offset + 8))),
              UInt hf_pn_rsi_interface (offset + 10) 1 (unat (tvb ! (offset + 10))),
              Padding (offset + 11) 1])
            (\<lambda>offset s.
               if 0 < len
               then dissect_pn_rta_remaining_user_data_bytes c tvb offset pinfo
                      (length tvb - offset) u8MoreFrag opnum PDU_TYPE_REQ s
               else (Inr offset, s, [])))
     \<and> (off = 0 \<and> \<not> offset + 11 \<le> length tvb \<longrightarrow>
        dissect_RSI_CONN_block c tvb offset pinfo u16VarPartLen u8MoreFrag off opnum s =
          (Inl TruncatedInput, s,
           Item hf_pn_rsi_conn_block offset 0
           # (if offset + 4 \<le> length tvb
              then [UInt hf_pn_rsi_rsp_max_length offset 4 (unat (tvb_get_ntohl tvb offset))] else [])
           @ (if offset + 6 \<le> length tvb
              then [UInt hf_pn_rsi_vendor_id (offset + 4) 2 (unat (tvb_get_ntohs tvb (offset + 4)))] else [])
           @ (if offset + 8 \<le> length tvb
              then [UInt hf_pn_rsi_device_id (offset + 6) 2 (unat (tvb_get_ntohs tvb (offset + 6)))] else [])
           @ (if offset + 10 \<le> length tvb
              then [UInt hf_pn_rsi_instance_id (offset + 8) 2 (unat (tvb_get_ntohs tvb (offset + 8)))] else [])))
     \<and> (off \<noteq> 0 \<longrightarrow>
        dissect_RSI_CONN_block c tvb offset pinfo u16VarPartLen u8MoreFrag off opnum s =
          and_then
            (Inr offset, s,
             Item hf_pn_rsi_conn_block offset 0 #
             (if u8MoreFrag = 0 then [AppendText '', RSI Header of CONN is at first segment'' []] else []))
            (\<lambda>offset s.
               if 0 < len
               then dissect_pn_rta_remaining_user_data_bytes c tvb offset pinfo
                      (length tvb - offset) u8MoreFrag opnum PDU_TYPE_REQ s
               else (Inr offset, s, [])))
     \<and> (off = 0 \<and> offset + 12 \<le> length tvb \<longrightarrow>
        dissect_SecurityAssociationContol_block c tvb offset pinfo u16VarPartLen u8MoreFrag off opnum 0xFFFF s =
          and_then
            (Inr (offset + 12), s,
             [Item hf_pn_rsi_security_association_control offset 0,
              UInt hf_pn_rsi_rsp_max_length offset 4 (unat (tvb_get_ntohl tvb offset)),
              UInt hf_pn_rsi_vendor_id (offset + 4) 2 (unat (tvb_get_ntohs tvb (offset + 4))),
              UInt hf_pn_rsi_device_id (offset + 6) 2 (unat (tvb_get_ntohs tvb (offset + 6))),
              UInt hf_pn_rsi_instance_id (offset + 8) 2 (unat (tvb_get_ntohs tvb (offset + 8))),
              UInt hf_pn_rsi_interface (offset + 10) 1 (unat (tvb ! (offset + 10))),
              Padding (offset + 11) 1])
            (\<lambda>offset s.
               if 0 < len
               then dissect_pn_rta_remaining_user_data_bytes c tvb offset pinfo
                      (length tvb - offset) u8MoreFrag opnum PDU_TYPE_REQ s
               else (Inr offset, s, [])))
     \<and> (off = 0 \<and> \<not> offset + 11 \<le> length tvb \<longrightarrow>
        dissect_SecurityAssociationContol_block c tvb offset pinfo u16VarPartLen u8MoreFrag off opnum 0xFFFF s =
          (Inl TruncatedInput, s,
           Item hf_pn_rsi_security_association_control offset 0
           # (if offset + 4 \<le> length tvb
              then [UInt hf_pn_rsi_rsp_max_length offset 4 (unat (tvb_get_ntohl tvb offset))] else [])
           @ (if offset + 6 \<le> length tvb
              then [UInt hf_pn_rsi_vendor_id (offset + 4) 2 (unat (tvb_get_ntohs tvb (offset + 4)))] else [])
           @ (if offset + 8 \<le> length tvb
              then [UInt hf_pn_rsi_device_id (offset + 6) 2 (unat (tvb_get_ntohs tvb (offset + 6)))] else [])
           @ (if offset + 10 \<le> length tvb
              then [UInt hf_pn_rsi_instance_id (offset + 8) 2 (unat (tvb_get_ntohs tvb (offset + 8)))] else [])))
     \<and> (off = 0 \<and> offset + 4 \<le> length tvb \<and> dsap \<noteq> 0xFFFF \<longrightarrow>
        dissect_SecurityAssociationContol_block c tvb offset pinfo u16VarPartLen u8MoreFrag off opnum dsap s =
          and_then
            (Inr (offset + 4), s,
             [Item hf_pn_rsi_security_association_control offset 0,
              UInt hf_pn_rsi_rsp_max_length offset 4 (unat (tvb_get_ntohl tvb offset))])
            (\<lambda>offset s.
               if 0 < len
               then dissect_pn_rta_remaining_user_data_bytes c tvb offset pinfo
                      (length tvb - offset) u8MoreFrag opnum PDU_TYPE_REQ s
               else (Inr offset, s, [])))
     \<and> (off = 0 \<and> \<not> offset + 4 \<le> length tvb \<and> dsap \<noteq> 0xFFFF \<longrightarrow>
        dissect_SecurityAssociationContol_block c tvb offset pinfo u16VarPartLen u8MoreFrag off opnum dsap s =
          (Inl TruncatedInput, s, [Item hf_pn_rsi_security_association_control offset 0]))
     \<and> (off \<noteq> 0 \<longrightarrow>
        dissect_SecurityAssociationContol_block c tvb offset pinfo u16VarPartLen u8MoreFrag off opnum dsap s =
          and_then
            (Inr offset, s,
             Item hf_pn_rsi_security_association_control offset 0 #
             (if u8MoreFrag = 0
              then [AppendText '', RSI Header of SecurityAssociationControl is at first segment'' []]
              else []))
            (\<lambda>offset s.
               if 0 < len
               then dissect_pn_rta_remaining_user_data_bytes c tvb offset pinfo
                      (length tvb - offset) u8MoreFrag opnum PDU_TYPE_REQ s
               else (Inr offset, s, [])))
     \<and> (off = 0 \<longrightarrow>
        dissect_RSI_RSP_block c tvb offset pinfo u16VarPartLen u8MoreFrag off opnum s =
          and_then
            (pnio_status c tvb offset, s, [PNIOStatus offset])
            (\<lambda>offset s.
               if 0 < len
               then dissect_pn_rta_remaining_user_data_bytes c tvb offset pinfo
                      (length tvb - offset) u8MoreFrag opnum PDU_TYPE_RSP s
               else (Inr offset, s, [])))
     \<and> (off \<noteq> 0 \<longrightarrow>
        dissect_RSI_RSP_block c tvb offset pinfo u16VarPartLen u8MoreFrag off opnum s =
          and_then
            (Inr offset, s,
             if u8MoreFrag = 0
             then [AppendText '', RSI Header of RSP is at first fragmented frame'' []]
             else [])
            (\<lambda>offset s.
               if 0 < len
               then dissect_pn_rta_remaining_user_data_bytes c tvb offset pinfo
                      (length tvb - offset) u8MoreFrag opnum PDU_TYPE_RSP s
               else (Inr offset, s, [])))"
proof -
  have signed: "sint (off + ucast u16VarPartLen - 4 - 4 :: 32 word) = len"
    unfolding assms by (rule payload_length_signed)
  show ?thesis
    unfolding signed [symmetric]
    apply (intro conjI impI)
    subgoal by (rule refl)
    subgoal by ((elim conjE)?, (rule SVCS_first; assumption))
    subgoal by ((elim conjE)?, (rule SVCS_first_truncated; assumption))
    subgoal by ((elim conjE)?, (rule SVCS_continuation; assumption))
    subgoal by ((elim conjE)?, (rule CONN_first; assumption))
    subgoal by ((elim conjE)?, (rule CONN_first_truncated; assumption))
    subgoal by ((elim conjE)?, (rule CONN_continuation; assumption))
    subgoal by ((elim conjE)?, (rule SecurityAssociationContol_consap_payload; assumption))
    subgoal by ((elim conjE)?, (rule SecurityAssociationContol_first_consap_truncated; assumption))
    subgoal by ((elim conjE)?, (rule SecurityAssociationContol_other_payload; assumption))
    subgoal by ((elim conjE)?, (rule SecurityAssociationContol_first_other_truncated; assumption))
    subgoal by ((elim conjE)?, (rule SecurityAssociationContol_continuation_payload; assumption))
    subgoal by ((elim conjE)?, (rule RSP_first; assumption))
    subgoal by ((elim conjE)?, (rule RSP_continuation; assumption))
    done
qed

theorem C5_user_payload_length_witness:
  "FOpnumOffset_Offset 0x02000000 = 0
   \<and> (0 :: nat) + 4 \<le> length [0, 0, 1, 0, 7, 7, 7 :: 8 word]
   \<and> sint (FOpnumOffset_Offset 0x02000000 + ucast (0 :: 16 word) - 4 - 4 :: 32 word) = - 8
   \<and> dissect_RSI_SVCS_block sample_collaborators [0, 0, 1, 0, 7, 7, 7] 0 (sample_frame 3 False) 0 0
        (FOpnumOffset_Offset 0x02000000) 2 last_fragment_state =
      (Inr 4, last_fragment_state,
       [Item hf_pn_rsi_svcs_block 0 0, UInt hf_pn_rsi_rsp_max_length 0 4 256])
   \<and> sint (FOpnumOffset_Offset 0x02000000 + ucast (9 :: 16 word) - 4 - 4 :: 32 word) = 1
   \<and> dissect_RSI_SVCS_block sample_collaborators [0, 0, 1, 0, 7, 7, 7] 0 (sample_frame 3 False) 9 0
        (FOpnumOffset_Offset 0x02000000) 2 last_fragment_state =
      (Inr 7, last_fragment_state,
       [Item hf_pn_rsi_svcs_block 0 0, UInt hf_pn_rsi_rsp_max_length 0 4 256, Blocks 4])
   \<and> FOpnumOffset_Offset 0x05000004 \<noteq> 0
   \<and> sint (FOpnumOffset_Offset 0x05000004 + ucast (4 :: 16 word) - 4 - 4 :: 32 word) = 0
   \<and> dissect_RSI_CONN_block sample_collaborators [7, 7, 7] 0 (sample_frame 3 False) 4 0
        (FOpnumOffset_Offset 0x05000004) 5 last_fragment_state =
      (Inr 0, last_fragment_state,
       [Item hf_pn_rsi_conn_block 0 0, AppendText '', RSI Header of CONN is at first segment'' []])
   \<and> dissect_RSI_RSP_block sample_collaborators [0xCF, 0x81, 0xFD, 0x01] 0 (sample_frame 3 False) 8 0
        (FOpnumOffset_Offset 0x02000000) 2 last_fragment_state =
      (Inr 4, last_fragment_state, [PNIOStatus 0])"
proof -
  have o: "FOpnumOffset_Offset 0x02000000 = 0" "FOpnumOffset_Offset 0x05000004 = 4"
    by (simp_all add: FOpnumOffset_Offset_def)
  have engine: "dissect_pn_rta_remaining_user_data_bytes sample_collaborators [0, 0, 1, 0, 7, 7, 7] 4
        (sample_frame 3 False) n 0 2 PDU_TYPE_REQ last_fragment_state =
      (Inr 7, last_fragment_state, [Blocks 4])" for n
    using engine_standalone [OF refl sample_flow_found_last [of 3 False]
        last_fragment_state_lookup(1) [of 3 False] last_fragment_state_lookup(4) [of False],
        of sample_collaborators "[0, 0, 1, 0, 7, 7, 7]" 4 n 2 PDU_TYPE_REQ]
    by (simp add: sample_collaborators_def)
  note t = C5_user_payload_length [OF refl refl, where c = sample_collaborators
      and pinfo = "sample_frame 3 False" and s = last_fragment_state and u8MoreFrag = 0 and offset = 0]
  have a: "sint (FOpnumOffset_Offset 0x02000000 + ucast (0 :: 16 word) - 4 - 4 :: 32 word) = - 8"
    using t [where v = "0x02000000" and u16VarPartLen = 0, THEN conjunct1] by (simp add: o)
  have b: "dissect_RSI_SVCS_block sample_collaborators [0, 0, 1, 0, 7, 7, 7] 0 (sample_frame 3 False) 0 0
        (FOpnumOffset_Offset 0x02000000) 2 last_fragment_state =
      (Inr 4, last_fragment_state,
       [Item hf_pn_rsi_svcs_block 0 0, UInt hf_pn_rsi_rsp_max_length 0 4 256])"
    using t [where v = "0x02000000" and u16VarPartLen = 0 and tvb = "[0, 0, 1, 0, 7, 7, 7]" and opnum = 2,
        THEN conjunct2, THEN conjunct1]
    by (simp add: o and_then_Inr tvb_get_ntohl_def)
  have c: "sint (FOpnumOffset_Offset 0x02000000 + ucast (9 :: 16 word) - 4 - 4 :: 32 word) = 1"
    using t [where v = "0x02000000" and u16VarPartLen = 9, THEN conjunct1] by (simp add: o)
  have d: "dissect_RSI_SVCS_block sample_collaborators [0, 0, 1, 0, 7, 7, 7] 0 (sample_frame 3 False) 9 0
        (FOpnumOffset_Offset 0x02000000) 2 last_fragment_state =
      (Inr 7, last_fragment_state,
       [Item hf_pn_rsi_svcs_block 0 0, UInt hf_pn_rsi_rsp_max_length 0 4 256, Blocks 4])"
    using t [where v = "0x02000000" and u16VarPartLen = 9 and tvb = "[0, 0, 1, 0, 7, 7, 7]" and opnum = 2,
        THEN conjunct2, THEN conjunct1] engine
    by (simp add: o and_then_Inr tvb_get_ntohl_def)
  have e: "sint (FOpnumOffset_Offset 0x05000004 + ucast (4 :: 16 word) - 4 - 4 :: 32 word) = 0"
    using t [where v = "0x05000004" and u16VarPartLen = 4, THEN conjunct1] by (simp add: o)
  have f: "dissect_RSI_CONN_block sample_collaborators [7, 7, 7] 0 (sample_frame 3 False) 4 0
        (FOpnumOffset_Offset 0x05000004) 5 last_fragment_state =
      (Inr 0, last_fragment_state,
       [Item hf_pn_rsi_conn_block 0 0, AppendText '', RSI Header of CONN is at first segment'' []])"
    using t [where v = "0x05000004" and u16VarPartLen = 4 and tvb = "[7, 7, 7]" and opnum = 5,
        THEN conjunct2, THEN conjunct2, THEN conjunct2, THEN conjunct2, THEN conjunct2, THEN conjunct2,
        THEN conjunct1]
    by (simp add: o and_then_Inr)
  have g: "dissect_RSI_RSP_block sample_collaborators [0xCF, 0x81, 0xFD, 0x01] 0 (sample_frame 3 False) 8 0
        (FOpnumOffset_Offset 0x02000000) 2 last_fragment_state =
      (Inr 4, last_fragment_state, [PNIOStatus 0])"
    using t [where v = "0x02000000" and u16VarPartLen = 8 and tvb = "[0xCF, 0x81, 0xFD, 0x01]" and opnum = 2,
        THEN conjunct2, THEN conjunct2, THEN conjunct2, THEN conjunct2, THEN conjunct2, THEN conjunct2,
        THEN conjunct2, THEN conjunct2, THEN conjunct2, THEN conjunct2, THEN conjunct2, THEN conjunct2,
        THEN conjunct1]
    by (simp add: o and_then_Inr sample_collaborators_def)
  show ?thesis
    using a b c d e f g by (simp add: o)
qed

lemma FREQ_RTA_switch_dispatch:
  "FREQ_RTA_switch c tvb offset pinfo u16VarPartLen u8MoreFrag dsap off opnum s =
     and_then (col_append_str (FREQ_RTA_info opnum) s) (\<lambda>_ s.
       if opnum = 0 then
         (if dsap = 0xFFFF
          then dissect_RSI_CONN_block c tvb offset pinfo u16VarPartLen u8MoreFrag off opnum s
          else dissect_RSI_SVCS_block c tvb offset pinfo u16VarPartLen u8MoreFrag off opnum s)
       else if opnum \<in> {2, 3, 4, 7, 8, 9} then
         dissect_RSI_SVCS_block c tvb offset pinfo u16VarPartLen u8MoreFrag off opnum s
       else if opnum \<in> {5, 6} then
         dissect_RSI_CONN_block c tvb offset pinfo u16VarPartLen u8MoreFrag off opnum s
       else if opnum = 0xA then
         dissect_SecurityAssociationContol_block c tvb offset pinfo u16VarPartLen u8MoreFrag off opnum dsap s
       else dissect_pn_undecoded tvb offset (length tvb) s)"
  by (simp add: FREQ_RTA_switch_def FREQ_RTA_info_def tvb_captured_length_def)

lemma SecurityAssociationContol_first_consap:
  "offset + 12 \<le> length tvb \<Longrightarrow>
   dissect_SecurityAssociationContol_block c tvb offset pinfo u16VarPartLen u8MoreFrag 0 opnum 0xFFFF s =
     and_then
       (Inr (offset + 12), s,
        [Item hf_pn_rsi_security_association_control offset 0,
         UInt hf_pn_rsi_rsp_max_length offset 4 (unat (tvb_get_ntohl tvb offset)),
         UInt hf_pn_rsi_vendor_id (offset + 4) 2 (unat (tvb_get_ntohs tvb (offset + 4))),
         UInt hf_pn_rsi_device_id (offset + 6) 2 (unat (tvb_get_ntohs tvb (offset + 6))),
         UInt hf_pn_rsi_instance_id (offset + 8) 2 (unat (tvb_get_ntohs tvb (offset + 8))),
         UInt hf_pn_rsi_interface (offset + 10) 1 (unat (tvb ! (offset + 10))),
         Padding (offset + 11) 1])
       (\<lambda>offset s.
          if 0 < sint (0 + ucast u16VarPartLen - 4 - 4 :: 32 word)
          then dissect_pn_rta_remaining_user_data_bytes c tvb offset pinfo
                 (length tvb - offset) u8MoreFrag opnum PDU_TYPE_REQ s
          else succeed offset s)"
  by (simp add: dissect_SecurityAssociationContol_block_def and_then_def codec_defs output_defs add.assoc
      del: add_2_eq_Suc' add_2_eq_Suc One_nat_def split: prod.splits)

lemma SecurityAssociationContol_first_other:
  "offset + 4 \<le> length tvb \<Longrightarrow> dsap \<noteq> 0xFFFF \<Longrightarrow>
   dissect_SecurityAssociationContol_block c tvb offset pinfo u16VarPartLen u8MoreFrag 0 opnum dsap s =
     and_then
       (Inr (offset + 4), s,
        [Item hf_pn_rsi_security_association_control offset 0,
         UInt hf_pn_rsi_rsp_max_length offset 4 (unat (tvb_get_ntohl tvb offset))])
       (\<lambda>offset s.
          if 0 < sint (0 + ucast u16VarPartLen - 4 - 4 :: 32 word)
          then dissect_pn_rta_remaining_user_data_bytes c tvb offset pinfo
                 (length tvb - offset) u8MoreFrag opnum PDU_TYPE_REQ s
          else succeed offset s)"
  by (simp add: dissect_SecurityAssociationContol_block_def and_then_def codec_defs output_defs add.assoc
      del: add_2_eq_Suc' add_2_eq_Suc One_nat_def split: prod.splits)

lemma SecurityAssociationContol_continuation:
  "off \<noteq> 0 \<Longrightarrow>
   dissect_SecurityAssociationContol_block c tvb offset pinfo u16VarPartLen u8MoreFrag off opnum dsap s =
     and_then
       (Inr offset, s,
        Item hf_pn_rsi_security_association_control offset 0 #
        (if u8MoreFrag = 0
         then [AppendText '', RSI Header of SecurityAssociationControl is at first segment'' []]
         else []))
       (\<lambda>offset s.
          if 0 < sint (off + ucast u16VarPartLen - 4 - 4 :: 32 word)
          then dissect_pn_rta_remaining_user_data_bytes c tvb offset pinfo
                 (length tvb - offset) u8MoreFrag opnum PDU_TYPE_REQ s
          else succeed offset s)"
  by (simp add: dissect_SecurityAssociationContol_block_def and_then_def codec_defs output_defs add.assoc
      del: add_2_eq_Suc' add_2_eq_Suc One_nat_def split: prod.splits)

subsection \<open>C2: the block decoder of a FREQ PDU\<close>

text \<open>
  C2, as the code has it. The FREQ dispatcher reads FOpnumOffset and selects by Opcode:
  0 decodes as CONN block if DestinationServiceAccessPoint is 0xFFFF and as SVCS block
  otherwise; 2, 3, 4, 7, 8 and 9 decode as SVCS block; 5 and 6 as CONN block; 0xA through
  the SecurityAssociationControl decoder; 1 and everything from 0xB on writes one
  undecoded marker at the cursor and interprets nothing. The SecurityAssociationControl
  decoder reads the identification sub-block only in a first segment (Offset = 0), after
  RspMaxLength, and there exactly when DestinationServiceAccessPoint is 0xFFFF; the
  sub-block is 8 bytes long (VendorID, DeviceID and InstanceID of 2 bytes, the interface
  and one byte of padding). In a continuation (Offset other than 0) it reads no fixed
  field, whatever the access point.
\<close>

theorem C2_FREQ_opcode_dispatch:
  "(offset + 4 \<le> length tvb \<longrightarrow>
      dissect_FREQ_RTA_block c tvb offset pinfo u16VarPartLen u8MoreFrag dsap s =
        and_then (dissect_FOpnumOffset tvb offset s) (\<lambda>_ s.
          FREQ_RTA_switch c tvb (offset + 4) pinfo u16VarPartLen u8MoreFrag dsap
            (tvb_get_ntohl tvb offset AND 0x00FFFFFF) (drop_bit 24 (tvb_get_ntohl tvb offset) AND 0x1F) s))
   \<and> FREQ_RTA_switch c tvb offset pinfo u16VarPartLen u8MoreFrag dsap off opnum s =
       and_then (col_append_str (FREQ_RTA_info opnum) s) (\<lambda>_ s.
         if opnum = 0 then
           (if dsap = 0xFFFF
            then dissect_RSI_CONN_block c tvb offset pinfo u16VarPartLen u8MoreFrag off opnum s
            else dissect_RSI_SVCS_block c tvb offset pinfo u16VarPartLen u8MoreFrag off opnum s)
         else if opnum \<in> {2, 3, 4, 7, 8, 9} then
           dissect_RSI_SVCS_block c tvb offset pinfo u16VarPartLen u8MoreFrag off opnum s
         else if opnum \<in> {5, 6} then
           dissect_RSI_CONN_block c tvb offset pinfo u16VarPartLen u8MoreFrag off opnum s
         else if opnum = 0xA then
           dissect_SecurityAssociationContol_block c tvb offset pinfo u16VarPartLen u8MoreFrag off opnum dsap s
         else dissect_pn_undecoded tvb offset (length tvb) s)
   \<and> (offset + 12 \<le> length tvb \<longrightarrow>
        dissect_SecurityAssociationContol_block c tvb offset pinfo u16VarPartLen u8MoreFrag 0 opnum 0xFFFF s =
          and_then
            (Inr (offset + 12), s,
             [Item hf_pn_rsi_security_association_control offset 0,
              UInt hf_pn_rsi_rsp_max_length offset 4 (unat (tvb_get_ntohl tvb offset)),
              UInt hf_pn_rsi_vendor_id (offset + 4) 2 (unat (tvb_get_ntohs tvb (offset + 4))),
              UInt hf_pn_rsi_device_id (offset + 6) 2 (unat (tvb_get_ntohs tvb (offset + 6))),
              UInt hf_pn_rsi_instance_id (offset + 8) 2 (unat (tvb_get_ntohs tvb (offset + 8))),
              UInt hf_pn_rsi_interface (offset + 10) 1 (unat (tvb ! (offset + 10))),
              Padding (offset + 11) 1])
            (\<lambda>offset s.
               if 0 < sint (0 + ucast u16VarPartLen - 4 - 4 :: 32 word)
               then dissect_pn_rta_remaining_user_data_bytes c tvb offset pinfo
                      (length tvb - offset) u8MoreFrag opnum PDU_TYPE_REQ s
               else succeed offset s))
   \<and> (offset + 4 \<le> length tvb \<and> dsap \<noteq> 0xFFFF \<longrightarrow>
        dissect_SecurityAssociationContol_block c tvb offset pinfo u16VarPartLen u8MoreFrag 0 opnum dsap s =
          and_then
            (Inr (offset + 4), s,
             [Item hf_pn_rsi_security_association_control offset 0,
              UInt hf_pn_rsi_rsp_max_length offset 4 (unat (tvb_get_ntohl tvb offset))])
            (\<lambda>offset s.
               if 0 < sint (0 + ucast u16VarPartLen - 4 - 4 :: 32 word)
               then dissect_pn_rta_remaining_user_data_bytes c tvb offset pinfo
                      (length tvb - offset) u8MoreFrag opnum PDU_TYPE_REQ s
               else succeed offset s))
   \<and> (off \<noteq> 0 \<longrightarrow>
        dissect_SecurityAssociationContol_block c tvb offset pinfo u16VarPartLen u8MoreFrag off opnum dsap s =
          and_then
            (Inr offset, s,
             Item hf_pn_rsi_security_association_control offset 0 #
             (if u8MoreFrag = 0
              then [AppendText '', RSI Header of SecurityAssociationControl is at first segment'' []]
              else []))
            (\<lambda>offset s.
               if 0 < sint (off + ucast u16VarPartLen - 4 - 4 :: 32 word)
               then dissect_pn_rta_remaining_user_data_bytes c tvb offset pinfo
                      (length tvb - offset) u8MoreFrag opnum PDU_TYPE_REQ s
               else succeed offset s))"
  using dissect_FREQ_RTA_block_ok [of offset tvb c pinfo u16VarPartLen u8MoreFrag dsap s]
    FREQ_RTA_switch_dispatch [of c tvb offset pinfo u16VarPartLen u8MoreFrag dsap off opnum s]
    SecurityAssociationContol_first_consap [of offset tvb c pinfo u16VarPartLen u8MoreFrag opnum s]
    SecurityAssociationContol_first_other [of offset tvb dsap c pinfo u16VarPartLen u8MoreFrag opnum s]
    SecurityAssociationContol_continuation [of off c tvb offset pinfo u16VarPartLen u8MoreFrag opnum dsap s]
  by (intro conjI impI) (elim conjE | assumption | blast)+

text \<open>
  The claim as the specification states it fails on a continuation segment: FOpnumOffset
  0x0A000004 is Opcode 0xA at Offset 4, the access point is 0xFFFF, and no
  identification field is read. In a first segment the sub-block runs from byte 8 to
  byte 15 of the buffer below, 8 bytes and not 7.
\<close>

theorem C2_identification_sub_block_counterexample:
  "dissect_FREQ_RTA_block sample_collaborators [0x0A, 0, 0, 4] 0 (sample_frame 1 False) 4 0 0xFFFF no_tables =
     (Inr 4, no_tables,
      [Item hf_pn_rsi_f_opnum_offset 0 4,
       UInt hf_pn_rsi_f_opnum_offset_offset 0 4 167772164,
       UInt hf_pn_rsi_f_opnum_offset_opnum 0 4 167772164,
       UInt hf_pn_rsi_f_opnum_offset_callsequence 0 4 167772164,
       ColInfo ''SecurityAssociationControl'',
       Item hf_pn_rsi_security_association_control 4 0,
       AppendText '', RSI Header of SecurityAssociationControl is at first segment'' []])
   \<and> dissect_FREQ_RTA_block sample_collaborators
       [0x0A, 0, 0, 0, 0, 0, 1, 0, 0, 0x2A, 1, 2, 0, 1, 2, 0] 0 (sample_frame 1 False) 8 0 0xFFFF no_tables =
     (Inr 16, no_tables,
      [Item hf_pn_rsi_f_opnum_offset 0 4,
       UInt hf_pn_rsi_f_opnum_offset_offset 0 4 167772160,
       UInt hf_pn_rsi_f_opnum_offset_opnum 0 4 167772160,
       UInt hf_pn_rsi_f_opnum_offset_callsequence 0 4 167772160,
       ColInfo ''SecurityAssociationControl'',
       Item hf_pn_rsi_security_association_control 4 0,
       UInt hf_pn_rsi_rsp_max_length 4 4 256,
       UInt hf_pn_rsi_vendor_id 8 2 42,
       UInt hf_pn_rsi_device_id 10 2 258,
       UInt hf_pn_rsi_instance_id 12 2 1,
       UInt hf_pn_rsi_interface 14 1 2,
       Padding 15 1])"
  by (simp add: dissect_FREQ_RTA_block_def dissect_FOpnumOffset_def FREQ_RTA_switch_def
      dissect_SecurityAssociationContol_block_def FOpnumOffset_Opnum_def FOpnumOffset_Offset_def
      and_then_Inr codec_defs output_defs tvb_get_ntohl_def tvb_get_ntohs_def Let_def)

theorem C2_FREQ_opcode_dispatch_witness:
  "(0 :: nat) + 4 \<le> length [0x05, 0, 0, 0, 0, 0, 1, 0, 0, 0x2A, 1, 2, 0, 1, 2, 0 :: 8 word]
   \<and> (0x05 :: 32 word) \<in> {5, 6}
   \<and> dissect_FREQ_RTA_block sample_collaborators
         [0x05, 0, 0, 0, 0, 0, 1, 0, 0, 0x2A, 1, 2, 0, 1, 2, 0] 0 (sample_frame 1 False) 8 0 1 no_tables =
       and_then (dissect_FOpnumOffset [0x05, 0, 0, 0, 0, 0, 1, 0, 0, 0x2A, 1, 2, 0, 1, 2, 0] 0 no_tables) (\<lambda>_ s.
       and_then (col_append_str ''ReadImplicit request'' s) (\<lambda>_ s.
         dissect_RSI_CONN_block sample_collaborators
           [0x05, 0, 0, 0, 0, 0, 1, 0, 0, 0x2A, 1, 2, 0, 1, 2, 0] 4 (sample_frame 1 False) 8 0 0 5 s))
   \<and> (4 :: nat) + 12 \<le> length [0x05, 0, 0, 0, 0, 0, 1, 0, 0, 0x2A, 1, 2, 0, 1, 2, 0 :: 8 word]
   \<and> dissect_SecurityAssociationContol_block sample_collaborators
         [0x05, 0, 0, 0, 0, 0, 1, 0, 0, 0x2A, 1, 2, 0, 1, 2, 0] 4 (sample_frame 1 False) 8 0 0 0xA 0xFFFF
         no_tables =
       (Inr 16, no_tables,
        [Item hf_pn_rsi_security_association_control 4 0,
         UInt hf_pn_rsi_rsp_max_length 4 4 256,
         UInt hf_pn_rsi_vendor_id 8 2 42,
         UInt hf_pn_rsi_device_id 10 2 258,
         UInt hf_pn_rsi_instance_id 12 2 1,
         UInt hf_pn_rsi_interface 14 1 2,
         Padding 15 1])
   \<and> (4 :: nat) + 4 \<le> length [0x05, 0, 0, 0, 0, 0, 1, 0, 0, 0x2A, 1, 2, 0, 1, 2, 0 :: 8 word]
   \<and> (1 :: 16 word) \<noteq> 0xFFFF
   \<and> dissect_SecurityAssociationContol_block sample_collaborators
         [0x05, 0, 0, 0, 0, 0, 1, 0, 0, 0x2A, 1, 2, 0, 1, 2, 0] 4 (sample_frame 1 False) 8 0 0 0xA 1
         no_tables =
       (Inr 8, no_tables,
        [Item hf_pn_rsi_security_association_control 4 0,
         UInt hf_pn_rsi_rsp_max_length 4 4 256])
   \<and> (4 :: 32 word) \<noteq> 0
   \<and> dissect_SecurityAssociationContol_block sample_collaborators
         [0x05, 0, 0, 0, 0, 0, 1, 0, 0, 0x2A, 1, 2, 0, 1, 2, 0] 4 (sample_frame 1 False) 4 0 4 0xA 0xFFFF
         no_tables =
       (Inr 4, no_tables,
        [Item hf_pn_rsi_security_association_control 4 0,
         AppendText '', RSI Header of SecurityAssociationControl is at first segment'' []])"
proof -
  let ?tvb = "[0x05, 0, 0, 0, 0, 0, 1, 0, 0, 0x2A, 1, 2, 0, 1, 2, 0 :: 8 word]"
  have h: "(0 :: nat) + 4 \<le> length ?tvb" by simp
  have v: "tvb_get_ntohl ?tvb 0 = 0x05000000"
    by (simp add: tvb_get_ntohl_def)
  note t = C2_FREQ_opcode_dispatch [where tvb = ?tvb and c = sample_collaborators
      and pinfo = "sample_frame 1 False" and u16VarPartLen = 8 and u8MoreFrag = 0 and dsap = 1
      and s = no_tables]
  have a: "dissect_FREQ_RTA_block sample_collaborators ?tvb 0 (sample_frame 1 False) 8 0 1 no_tables =
        and_then (dissect_FOpnumOffset ?tvb 0 no_tables) (\<lambda>_ s.
          FREQ_RTA_switch sample_collaborators ?tvb 4 (sample_frame 1 False) 8 0 1 0 5 s)"
    using t [where offset = 0 and off = 0 and opnum = 0] h by (simp add: v)
  have b: "FREQ_RTA_switch sample_collaborators ?tvb 4 (sample_frame 1 False) 8 0 1 0 5 s =
       and_then (col_append_str ''ReadImplicit request'' s) (\<lambda>_ s.
         dissect_RSI_CONN_block sample_collaborators ?tvb 4 (sample_frame 1 False) 8 0 0 5 s)" for s
    using t [where offset = 4 and off = 0 and opnum = 5]
      C2_FREQ_opcode_dispatch [where tvb = ?tvb and c = sample_collaborators
        and pinfo = "sample_frame 1 False" and u16VarPartLen = 8 and u8MoreFrag = 0 and dsap = 1
        and s = s and offset = 4 and off = 0 and opnum = 5]
    by (simp add: FREQ_RTA_info_def)
  have c: "dissect_SecurityAssociationContol_block sample_collaborators ?tvb 4 (sample_frame 1 False) 8 0 0 0xA
        0xFFFF no_tables =
       (Inr 16, no_tables,
        [Item hf_pn_rsi_security_association_control 4 0,
         UInt hf_pn_rsi_rsp_max_length 4 4 256,
         UInt hf_pn_rsi_vendor_id 8 2 42,
         UInt hf_pn_rsi_device_id 10 2 258,
         UInt hf_pn_rsi_instance_id 12 2 1,
         UInt hf_pn_rsi_interface 14 1 2,
         Padding 15 1])"
    using t [where offset = 4 and off = 0 and opnum = "0xA"]
    by (simp add: and_then_Inr succeed_def tvb_get_ntohl_def tvb_get_ntohs_def)
  have d: "dissect_SecurityAssociationContol_block sample_collaborators ?tvb 4 (sample_frame 1 False) 8 0 0 0xA
        1 no_tables =
       (Inr 8, no_tables,
        [Item hf_pn_rsi_security_association_control 4 0,
         UInt hf_pn_rsi_rsp_max_length 4 4 256])"
    using t [where offset = 4 and off = 0 and opnum = "0xA"]
    by (simp add: and_then_Inr succeed_def tvb_get_ntohl_def)
  have e: "dissect_SecurityAssociationContol_block sample_collaborators ?tvb 4 (sample_frame 1 False) 4 0 4 0xA
        0xFFFF no_tables =
       (Inr 4, no_tables,
        [Item hf_pn_rsi_security_association_control 4 0,
         AppendText '', RSI Header of SecurityAssociationControl is at first segment'' []])"
    using C2_FREQ_opcode_dispatch [where tvb = ?tvb and c = sample_collaborators
        and pinfo = "sample_frame 1 False" and u16VarPartLen = 4 and u8MoreFrag = 0 and dsap = "0xFFFF"
        and s = no_tables and offset = 4 and off = 4 and opnum = "0xA"]
    by (simp add: and_then_Inr succeed_def)
  show ?thesis
    using h a b c d e by simp
qed

















subsection \<open>C6: the security envelope\<close>






end
